theory Spec2Isabelle
  imports Main "HOL-Library.AList" "HOL-Library.Multiset"
begin

section \<open>Data model\<close>

text \<open>
  The store of \<^verbatim>\<open>data_store.py\<close> is a set of module-level dictionaries (the
  in-memory side) mirrored to relational tables through SQLAlchemy (the durable side).
  Both sides are part of the state that every operation takes and returns.
\<close>

type_synonym uid = int
  \<comment> \<open>a Telegram user id, the key of every in-memory dictionary\<close>

type_synonym dbid = nat
  \<comment> \<open>a surrogate primary key of a table row\<close>

type_synonym timestamp = int
  \<comment> \<open>\<^verbatim>\<open>time.time()\<close>, taken as an input of the operation that reads the clock\<close>

subsection \<open>Profiles (the values of \<^verbatim>\<open>user_profiles\<close>)\<close>

text \<open>
  A profile is a \<^verbatim>\<open>Dict[str, Any]\<close>; a key that is absent is \<open>None\<close> here, so
  \<^verbatim>\<open>profile.get("gender")\<close> is the field itself.
\<close>

record profile =
  telegram_id :: "int option"
  username :: "string option"
  name :: "string option"
  age :: "int option"
  gender :: "string option"
  university :: "string option"
  target_universities :: "string list option"
  hobbies :: "string option"
  bio :: "string option"
  relationship_preference :: "string option"
  profile_pic_url :: "string option"
  profile_pic :: "string option"
  profile_complete :: "bool option"

definition empty_profile :: profile where
  \<comment> \<open>the dictionary \<^verbatim>\<open>{}\<close>\<close>
  "empty_profile =
     \<lparr>telegram_id = None, username = None, name = None, age = None, gender = None,
      university = None, target_universities = None, hobbies = None, bio = None,
      relationship_preference = None, profile_pic_url = None, profile_pic = None,
      profile_complete = None\<rparr>"

definition truthy_flag :: "bool option \<Rightarrow> bool" where
  \<comment> \<open>the truth value of \<^verbatim>\<open>profile.get("profile_complete")\<close>\<close>
  "truthy_flag b = (b = Some True)"

subsection \<open>Rows of the relational tables (\<^verbatim>\<open>models.py\<close>)\<close>

record User =
  User_id :: dbid
  User_telegram_id :: uid
  User_name :: string
  User_age :: int
  User_gender :: string
  User_university :: string
  User_bio :: "string option"
  User_hobbies :: "string option"
  User_relationship_preference :: "string option"
  User_profile_pic_url :: "string option"
  User_profile_pic :: "string option"

record TargetUniversity =
  TargetUniversity_id :: dbid
  TargetUniversity_user_id :: dbid
  TargetUniversity_university_name :: string

record Like =
  Like_id :: dbid
  Like_sender_id :: dbid
  Like_receiver_id :: dbid
  Like_is_match :: bool

record Message =
  Message_id :: dbid
  Message_sender_id :: dbid
  Message_receiver_id :: dbid
  Message_text :: string
  Message_is_read :: bool

record SecretCrush =
  SecretCrush_id :: dbid
  SecretCrush_crusher_id :: dbid
  SecretCrush_crushee_id :: "dbid option"
  SecretCrush_crush_name :: "string option"
  SecretCrush_social_media_account :: "string option"
  SecretCrush_crush_photo :: "string option"
  SecretCrush_is_mutual :: bool

record Block =
  Block_id :: dbid
  Block_blocker_id :: dbid
  Block_blocked_id :: dbid

record Report =
  Report_id :: dbid
  Report_reporter_id :: dbid
  Report_reported_id :: dbid
  Report_reason :: "string option"

record database =
  db_users :: "User list"
  db_target_universities :: "TargetUniversity list"
  db_likes :: "Like list"
  db_messages :: "Message list"
  db_crushes :: "SecretCrush list"
  db_blocks :: "Block list"
  db_reports :: "Report list"

subsection \<open>The whole store\<close>

record chat_message =
  sender_id :: uid
  sent_at :: timestamp
  text_of :: string

text \<open>
  \<^verbatim>\<open>user_profiles\<close> and \<^verbatim>\<open>blocks\<close> are iterated with \<^verbatim>\<open>.items()\<close>, so they are
  association lists in insertion order; the other dictionaries are only looked up by key.
\<close>

record store =
  user_profiles :: "(uid \<times> profile) list"
  matches :: "uid \<rightharpoonup> uid set"
  likes :: "uid \<rightharpoonup> uid set"
  blocks :: "(uid \<times> uid set) list"
  reports :: "uid \<rightharpoonup> uid list"
  secret_crushes :: "uid \<rightharpoonup> uid set"
  chats :: "(uid \<times> uid) \<rightharpoonup> chat_message list"
  db :: database

definition get_set :: "('k \<rightharpoonup> 'v set) \<Rightarrow> 'k \<Rightarrow> 'v set" where
  \<comment> \<open>\<^verbatim>\<open>d.get(k, set())\<close>\<close>
  "get_set d k = (case d k of None \<Rightarrow> {} | Some vs \<Rightarrow> vs)"

subsection \<open>Failures of the durable store\<close>

text \<open>
  Every call into SQLAlchemy may raise. Each operation numbers its calls in source order;
  the fault \<open>Some k\<close> makes call \<open>k\<close> raise when it is reached, \<open>None\<close> lets all of
  them succeed. Changes of a session that was not committed are lost when the application
  context is left, so the durable state changes only at a commit that succeeds.
\<close>

datatype exn = DatabaseError | TypeError | AttributeError | ValueError | IndexError | KeyError

type_synonym fault = "nat option"

definition raises :: "fault \<Rightarrow> nat \<Rightarrow> bool" where
  "raises f k = (f = Some k)"

definition fresh_id :: "dbid list \<Rightarrow> dbid" where
  \<comment> \<open>the autoincrement key given to a new row\<close>
  "fresh_id ids = Suc (fold max ids 0)"

definition first_user :: "database \<Rightarrow> uid \<Rightarrow> User option" where
  \<comment> \<open>\<^verbatim>\<open>db.session.query(User).filter_by(telegram_id=...).first()\<close>\<close>
  "first_user d tid = find (\<lambda>u. User_telegram_id u = tid) (db_users d)"

definition first_like :: "Like list \<Rightarrow> dbid \<Rightarrow> dbid \<Rightarrow> Like option" where
  \<comment> \<open>\<^verbatim>\<open>db.session.query(Like).filter_by(sender_id=..., receiver_id=...).first()\<close>\<close>
  "first_like ls s r = find (\<lambda>l. Like_sender_id l = s \<and> Like_receiver_id l = r) ls"

definition flag_match :: "dbid \<Rightarrow> Like list \<Rightarrow> Like list" where
  \<comment> \<open>\<^verbatim>\<open>row.is_match = True\<close> on the row with the given key\<close>
  "flag_match k ls = map (\<lambda>l. if Like_id l = k then l\<lparr>Like_is_match := True\<rparr> else l) ls"

section \<open>The decision processor\<close>

definition add_match :: "uid \<Rightarrow> uid \<Rightarrow> (uid \<rightharpoonup> uid set) \<Rightarrow> (uid \<rightharpoonup> uid set)" where
  \<comment> \<open>lines 412-418 and 434-440 of \<^verbatim>\<open>process_match_decision\<close>, and \<^verbatim>\<open>save_match\<close>\<close>
  "add_match user_id other_id m =
     (let m1 = (if m user_id = None then m(user_id \<mapsto> {}) else m);
          m2 = (if m1 other_id = None then m1(other_id \<mapsto> {}) else m1);
          m3 = m2(user_id \<mapsto> insert other_id (get_set m2 user_id));
          m4 = m3(other_id \<mapsto> insert user_id (get_set m3 other_id))
      in m4)"

text \<open>
  The body of the \<^verbatim>\<open>try\<close> block of \<^verbatim>\<open>process_match_decision\<close>. Its calls:
  0 the import and the application context, 1 the sender query, 2 the receiver query,
  3 the query for an existing like, 4 the query for the reverse like (which first
  flushes the new row, so the query sees it), 5 the commit of the match branch, 6 the
  final commit. The result is \<open>Inl\<close> for an exception, \<open>Inr (Some r)\<close> when the block
  returned \<open>r\<close>, \<open>Inr None\<close> when it ran to its end.
\<close>

definition process_match_decision_try ::
    "fault \<Rightarrow> uid \<Rightarrow> uid \<Rightarrow> store \<Rightarrow> (exn + string option) \<times> store" where
  "process_match_decision_try f user_id other_id s =
     (if raises f 0 \<or> raises f 1 then (Inl DatabaseError, s)
      else let sender = first_user (db s) user_id in
      if raises f 2 then (Inl DatabaseError, s)
      else let receiver = first_user (db s) other_id in
      (case (sender, receiver) of
         (Some sender_row, Some receiver_row) \<Rightarrow>
           if raises f 3 then (Inl DatabaseError, s)
           else
            (case first_like (db_likes (db s)) (User_id sender_row) (User_id receiver_row) of
               None \<Rightarrow>
                 let like = \<lparr>Like_id = fresh_id (map Like_id (db_likes (db s))),
                             Like_sender_id = User_id sender_row,
                             Like_receiver_id = User_id receiver_row,
                             Like_is_match = False\<rparr>;
                     pending = db_likes (db s) @ [like]
                 in if raises f 4 then (Inl DatabaseError, s)
                    else
                     (case first_like pending (User_id receiver_row) (User_id sender_row) of
                        Some reverse_like \<Rightarrow>
                          let flagged = flag_match (Like_id reverse_like)
                                          (flag_match (Like_id like) pending);
                              s1 = s\<lparr>matches := add_match user_id other_id (matches s)\<rparr>
                          in if raises f 5 then (Inl DatabaseError, s1)
                             else (Inr (Some ''match''),
                                   s1\<lparr>db := (db s1)\<lparr>db_likes := flagged\<rparr>\<rparr>)
                      | None \<Rightarrow>
                          if raises f 6 then (Inl DatabaseError, s)
                          else (Inr None, s\<lparr>db := (db s)\<lparr>db_likes := pending\<rparr>\<rparr>))
             | Some existing_like \<Rightarrow>
                 if raises f 6 then (Inl DatabaseError, s) else (Inr None, s))
       | _ \<Rightarrow> (Inr None, s)))"

definition process_match_decision ::
    "fault \<Rightarrow> uid \<Rightarrow> uid \<Rightarrow> bool \<Rightarrow> store \<Rightarrow> string \<times> store" where
  "process_match_decision f user_id other_id is_like s =
     (if \<not> is_like then (''passed'', s)
      else
        let s1 = s\<lparr>likes := (likes s)(user_id \<mapsto> insert other_id (get_set (likes s) user_id))\<rparr>
        in (case process_match_decision_try f user_id other_id s1 of
              (Inr (Some r), s2) \<Rightarrow> (r, s2)
            | (_, s2) \<Rightarrow>
                \<comment> \<open>the block ended, or its exception was logged: the in-memory check\<close>
                if user_id \<in> get_set (likes s2) other_id
                then (''match'', s2\<lparr>matches := add_match user_id other_id (matches s2)\<rparr>)
                else (''liked'', s2)))"

section \<open>Profiles: read-through and write\<close>

definition targets_of :: "database \<Rightarrow> User \<Rightarrow> string list" where
  \<comment> \<open>the relationship \<^verbatim>\<open>db_user.target_universities\<close>, loaded lazily\<close>
  "targets_of d u =
     map TargetUniversity_university_name
       (filter (\<lambda>t. TargetUniversity_user_id t = User_id u) (db_target_universities d))"

definition or_empty :: "string option \<Rightarrow> string" where
  \<comment> \<open>\<^verbatim>\<open>value or ""\<close>\<close>
  "or_empty v = (case v of None \<Rightarrow> [] | Some x \<Rightarrow> x)"

definition profile_of_User :: "User \<Rightarrow> string list \<Rightarrow> profile" where
  \<comment> \<open>lines 141-158 of \<^verbatim>\<open>get_user_profile\<close>: a row of the table is always loaded as a
      complete profile\<close>
  "profile_of_User u ts =
     \<lparr>telegram_id = None, username = Some [], name = Some (User_name u),
      age = Some (User_age u), gender = Some (User_gender u),
      university = Some (User_university u), target_universities = Some ts,
      hobbies = Some (or_empty (User_hobbies u)), bio = Some (or_empty (User_bio u)),
      relationship_preference = Some (or_empty (User_relationship_preference u)),
      profile_pic_url = Some (or_empty (User_profile_pic_url u)),
      profile_pic = Some (or_empty (User_profile_pic u)),
      profile_complete = Some True\<rparr>"

text \<open>
  \<^verbatim>\<open>get_user_profile\<close> of \<^verbatim>\<open>data_store.py\<close>. Calls of the read-through: 0 the import
  and the application context, 1 the user query, 2 the lazy load of the target
  universities. When call 2 raises, the local \<^verbatim>\<open>profile\<close> is already bound to the
  dictionary without targets: it is returned but not cached.
\<close>

definition get_user_profile :: "fault \<Rightarrow> uid \<Rightarrow> store \<Rightarrow> profile option \<times> store" where
  "get_user_profile f user_id s =
     (case map_of (user_profiles s) user_id of
        Some p \<Rightarrow> (Some p, s)
      | None \<Rightarrow>
          if raises f 0 \<or> raises f 1 then (None, s)
          else (case first_user (db s) user_id of
                  None \<Rightarrow> (None, s)
                | Some db_user \<Rightarrow>
                    if raises f 2 then (Some (profile_of_User db_user []), s)
                    else let p = profile_of_User db_user (targets_of (db s) db_user)
                         in (Some p, s\<lparr>user_profiles := AList.update user_id p (user_profiles s)\<rparr>)))"

definition get_user_profile_new :: "uid \<Rightarrow> store \<Rightarrow> profile option" where
  \<comment> \<open>\<^verbatim>\<open>get_user_profile\<close> of \<^verbatim>\<open>data_store_new.py\<close>: memory only\<close>
  "get_user_profile_new user_id s = map_of (user_profiles s) user_id"

definition add_targets :: "dbid \<Rightarrow> string list \<Rightarrow> TargetUniversity list \<Rightarrow> TargetUniversity list" where
  \<comment> \<open>one \<^verbatim>\<open>TargetUniversity\<close> row per entry of the list\<close>
  "add_targets k unis rows =
     fold (\<lambda>uni acc. acc @ [\<lparr>TargetUniversity_id = fresh_id (map TargetUniversity_id acc),
                              TargetUniversity_user_id = k,
                              TargetUniversity_university_name = uni\<rparr>]) unis rows"

definition new_User :: "dbid \<Rightarrow> uid \<Rightarrow> profile \<Rightarrow> User" where
  \<comment> \<open>lines 195-206 of \<^verbatim>\<open>save_user_profile\<close>\<close>
  "new_User k user_id profile_data =
     \<lparr>User_id = k, User_telegram_id = user_id,
      User_name = or_empty (name profile_data),
      User_age = (case age profile_data of None \<Rightarrow> 18 | Some a \<Rightarrow> a),
      User_gender = or_empty (gender profile_data),
      User_university = or_empty (university profile_data),
      User_bio = Some (or_empty (bio profile_data)),
      User_hobbies = Some (or_empty (hobbies profile_data)),
      User_relationship_preference = Some (or_empty (relationship_preference profile_data)),
      User_profile_pic_url = Some (or_empty (profile_pic_url profile_data)),
      User_profile_pic = Some (or_empty (profile_pic profile_data))\<rparr>"

definition keep :: "'a option \<Rightarrow> 'a \<Rightarrow> 'a" where
  \<comment> \<open>\<^verbatim>\<open>profile_data.get(key, old)\<close>\<close>
  "keep v old = (case v of None \<Rightarrow> old | Some x \<Rightarrow> x)"

definition keep_opt :: "'a option \<Rightarrow> 'a option \<Rightarrow> 'a option" where
  \<comment> \<open>the same for a nullable column\<close>
  "keep_opt v old = (case v of None \<Rightarrow> old | Some x \<Rightarrow> Some x)"

definition updated_User :: "User \<Rightarrow> profile \<Rightarrow> User" where
  \<comment> \<open>lines 225-236 of \<^verbatim>\<open>save_user_profile\<close>\<close>
  "updated_User db_user profile_data =
     db_user\<lparr>User_name := keep (name profile_data) (User_name db_user),
             User_age := keep (age profile_data) (User_age db_user),
             User_gender := keep (gender profile_data) (User_gender db_user),
             User_university := keep (university profile_data) (User_university db_user),
             User_bio := keep_opt (bio profile_data) (User_bio db_user),
             User_hobbies := keep_opt (hobbies profile_data) (User_hobbies db_user),
             User_relationship_preference :=
               keep_opt (relationship_preference profile_data)
                 (User_relationship_preference db_user),
             User_profile_pic_url :=
               keep_opt (profile_pic_url profile_data) (User_profile_pic_url db_user),
             User_profile_pic :=
               keep_opt (profile_pic profile_data) (User_profile_pic db_user)\<rparr>"

text \<open>
  The \<^verbatim>\<open>try\<close> block of \<^verbatim>\<open>save_user_profile\<close>. Calls: 0 the import and the application
  context, 1 the user query, 2 the flush after adding a new user, 3 the deletion of the
  old target rows, 4 the commit.
\<close>

definition save_user_profile_try ::
    "fault \<Rightarrow> uid \<Rightarrow> profile \<Rightarrow> store \<Rightarrow> (exn + unit) \<times> store" where
  "save_user_profile_try f user_id profile_data s =
     (if raises f 0 \<or> raises f 1 then (Inl DatabaseError, s)
      else
       (case first_user (db s) user_id of
          None \<Rightarrow>
            let db_user = new_User (fresh_id (map User_id (db_users (db s)))) user_id profile_data;
                users1 = db_users (db s) @ [db_user]
            in if raises f 2 then (Inl DatabaseError, s)
               else
                 let targets1 =
                       (case target_universities profile_data of
                          None \<Rightarrow> db_target_universities (db s)
                        | Some target_unis \<Rightarrow>
                            add_targets (User_id db_user) target_unis
                              (db_target_universities (db s)))
                 in if raises f 4 then (Inl DatabaseError, s)
                    else (Inr (), s\<lparr>db := (db s)\<lparr>db_users := users1,
                                                  db_target_universities := targets1\<rparr>\<rparr>)
        | Some db_user \<Rightarrow>
            let users1 = map (\<lambda>u. if User_id u = User_id db_user
                                   then updated_User db_user profile_data else u)
                           (db_users (db s))
            in (case target_universities profile_data of
                  None \<Rightarrow>
                    if raises f 4 then (Inl DatabaseError, s)
                    else (Inr (), s\<lparr>db := (db s)\<lparr>db_users := users1\<rparr>\<rparr>)
                | Some target_unis \<Rightarrow>
                    if raises f 3 then (Inl DatabaseError, s)
                    else
                      let kept = filter (\<lambda>t. TargetUniversity_user_id t \<noteq> User_id db_user)
                                   (db_target_universities (db s));
                          targets1 = add_targets (User_id db_user) target_unis kept
                      in if raises f 4 then (Inl DatabaseError, s)
                         else (Inr (), s\<lparr>db := (db s)\<lparr>db_users := users1,
                                                       db_target_universities := targets1\<rparr>\<rparr>))))"

definition logged :: "(exn + 'a) \<times> store \<Rightarrow> store" where
  \<comment> \<open>\<^verbatim>\<open>except Exception as e: logger.error(...)\<close>: the exception is dropped, the
      function goes on with the state the block left\<close>
  "logged r = snd r"

definition save_user_profile :: "fault \<Rightarrow> uid \<Rightarrow> profile \<Rightarrow> store \<Rightarrow> store" where
  "save_user_profile f user_id profile_data s =
     (let s1 = s\<lparr>user_profiles := AList.update user_id profile_data (user_profiles s)\<rparr>
      in if profile_data = empty_profile then s1
         else logged (save_user_profile_try f user_id profile_data s1))"

section \<open>The matching filter\<close>

definition excluded_users :: "uid \<Rightarrow> store \<Rightarrow> uid set" where
  \<comment> \<open>lines 305-322 of \<^verbatim>\<open>get_potential_matches\<close>\<close>
  "excluded_users user_id s =
     (let e1 = (case likes s user_id of None \<Rightarrow> {} | Some ls \<Rightarrow> ls);
          e2 = (case map_of (blocks s) user_id of None \<Rightarrow> e1 | Some bs \<Rightarrow> e1 \<union> bs);
          e3 = fold (\<lambda>(other_id, other_blocked) e.
                       if user_id \<in> other_blocked then insert other_id e else e)
                 (blocks s) e2;
          e4 = (case matches s user_id of None \<Rightarrow> e3 | Some ms \<Rightarrow> e3 \<union> ms)
      in e4)"

definition gender_skip :: "string option \<Rightarrow> string option \<Rightarrow> bool" where
  \<comment> \<open>the condition of line 336\<close>
  "gender_skip user_gender other_gender =
     ((user_gender = Some ''male'' \<and> other_gender \<noteq> Some ''female'') \<or>
      (user_gender = Some ''female'' \<and> other_gender \<noteq> Some ''male''))"

definition uni_ok :: "string list \<Rightarrow> string option \<Rightarrow> bool" where
  \<comment> \<open>\<^verbatim>\<open>"All" in targets or uni in targets\<close>, where \<^verbatim>\<open>uni\<close> may be \<^verbatim>\<open>None\<close>\<close>
  "uni_ok targets uni =
     (''All'' \<in> set targets \<or> (case uni of None \<Rightarrow> False | Some u \<Rightarrow> u \<in> set targets))"

definition targets_or_empty :: "profile \<Rightarrow> string list" where
  \<comment> \<open>\<^verbatim>\<open>profile.get("target_universities", [])\<close>\<close>
  "targets_or_empty p = (case target_universities p of None \<Rightarrow> [] | Some l \<Rightarrow> l)"

fun scan_profiles ::
    "uid \<Rightarrow> profile \<Rightarrow> uid set \<Rightarrow> (uid \<times> profile) list \<Rightarrow> uid list" where
  \<comment> \<open>the loop of lines 327-346\<close>
  "scan_profiles user_id user_profile excluded [] = []"
| "scan_profiles user_id user_profile excluded ((other_id, other_profile) # rest) =
     (if other_id = user_id \<or> \<not> truthy_flag (profile_complete other_profile) \<or>
         other_id \<in> excluded
      then scan_profiles user_id user_profile excluded rest
      else if gender_skip (gender user_profile) (gender other_profile)
      then scan_profiles user_id user_profile excluded rest
      else if uni_ok (targets_or_empty user_profile) (university other_profile)
      then other_id # scan_profiles user_id user_profile excluded rest
      else scan_profiles user_id user_profile excluded rest)"

fun shuffle_loop :: "nat \<Rightarrow> nat list \<Rightarrow> 'a list \<Rightarrow> 'a list" where
  \<comment> \<open>\<^verbatim>\<open>random.shuffle\<close>: for \<open>i\<close> from the last index down to 1, swap \<open>x[i]\<close> with
      \<open>x[j]\<close>, \<open>j\<close> drawn below \<open>i + 1\<close>; the draws are an input\<close>
  "shuffle_loop 0 rs xs = xs"
| "shuffle_loop (Suc k) rs xs =
     (let i = Suc k;
          j = (case rs of [] \<Rightarrow> 0 | r # _ \<Rightarrow> r mod Suc i)
      in shuffle_loop k (tl rs) (xs[i := xs ! j, j := xs ! i]))"

definition shuffle :: "nat list \<Rightarrow> 'a list \<Rightarrow> 'a list" where
  "shuffle rs xs = shuffle_loop (length xs - 1) rs xs"

definition get_potential_matches ::
    "fault \<Rightarrow> nat list \<Rightarrow> uid \<Rightarrow> store \<Rightarrow> uid list \<times> store" where
  "get_potential_matches f rs user_id s =
     (case get_user_profile f user_id s of
        (None, s1) \<Rightarrow> ([], s1)
      | (Some user_profile, s1) \<Rightarrow>
          if user_profile = empty_profile \<or> \<not> truthy_flag (profile_complete user_profile)
          then ([], s1)
          else (shuffle rs (scan_profiles user_id user_profile (excluded_users user_id s1)
                              (user_profiles s1)), s1))"

subsection \<open>The copy in \<^verbatim>\<open>data_store_new.py\<close>\<close>

definition blocked_by :: "uid \<Rightarrow> store \<Rightarrow> uid set" where
  \<comment> \<open>lines 250-253\<close>
  "blocked_by user_id s =
     fold (\<lambda>(other_id, other_blocked) e.
             if user_id \<in> other_blocked then insert other_id e else e) (blocks s) {}"

fun scan_profiles_new :: "uid \<Rightarrow> profile \<Rightarrow> store \<Rightarrow> (uid \<times> profile) list \<Rightarrow> uid list" where
  \<comment> \<open>the loop of lines 257-286\<close>
  "scan_profiles_new user_id user_profile s [] = []"
| "scan_profiles_new user_id user_profile s ((other_id, other_profile) # rest) =
     (if other_id = user_id \<or> \<not> truthy_flag (profile_complete other_profile) \<or>
         other_id \<in> get_set (likes s) user_id \<or>
         other_id \<in> (case map_of (blocks s) user_id of None \<Rightarrow> {} | Some bs \<Rightarrow> bs) \<or>
         other_id \<in> blocked_by user_id s \<or>
         other_id \<in> get_set (matches s) user_id
      then scan_profiles_new user_id user_profile s rest
      else if gender_skip (gender user_profile) (gender other_profile)
      then scan_profiles_new user_id user_profile s rest
      else
        let user_uni_ok = uni_ok (targets_or_empty other_profile) (university user_profile);
            other_uni_ok = uni_ok (targets_or_empty user_profile) (university other_profile)
        in if \<not> (user_uni_ok \<and> other_uni_ok)
           then scan_profiles_new user_id user_profile s rest
           else other_id # scan_profiles_new user_id user_profile s rest)"

definition get_potential_matches_new :: "nat list \<Rightarrow> uid \<Rightarrow> store \<Rightarrow> uid list" where
  "get_potential_matches_new rs user_id s =
     (case get_user_profile_new user_id s of
        None \<Rightarrow> []
      | Some user_profile \<Rightarrow>
          if user_profile = empty_profile \<or> \<not> truthy_flag (profile_complete user_profile)
          then []
          else shuffle rs (scan_profiles_new user_id user_profile s (user_profiles s)))"

section \<open>Secret crushes\<close>

definition first_crush :: "SecretCrush list \<Rightarrow> dbid \<Rightarrow> dbid \<Rightarrow> SecretCrush option" where
  \<comment> \<open>\<^verbatim>\<open>db.session.query(SecretCrush).filter_by(crusher_id=..., crushee_id=...).first()\<close>\<close>
  "first_crush cs a b =
     find (\<lambda>c. SecretCrush_crusher_id c = a \<and> SecretCrush_crushee_id c = Some b) cs"

text \<open>
  The \<^verbatim>\<open>try\<close> block for a registered crush. Calls: 0 the import and the application
  context, 1 the crusher query, 2 the crushee query, 3 the query for an existing crush,
  4 the query for the reverse crush, 5 the commit.
\<close>

definition add_secret_crush_try ::
    "fault \<Rightarrow> uid \<Rightarrow> uid \<Rightarrow> store \<Rightarrow> (exn + unit) \<times> store" where
  "add_secret_crush_try f user_id crush_id s =
     (if raises f 0 \<or> raises f 1 then (Inl DatabaseError, s)
      else let crusher = first_user (db s) user_id in
      if raises f 2 then (Inl DatabaseError, s)
      else let crushee = first_user (db s) crush_id in
      (case (crusher, crushee) of
         (Some crusher_row, Some crushee_row) \<Rightarrow>
           if raises f 3 then (Inl DatabaseError, s)
           else
            (case first_crush (db_crushes (db s)) (User_id crusher_row) (User_id crushee_row) of
               None \<Rightarrow>
                 if raises f 4 then (Inl DatabaseError, s)
                 else
                   let mutual_crush = first_crush (db_crushes (db s))
                                        (User_id crushee_row) (User_id crusher_row);
                       is_mutual = (mutual_crush \<noteq> None);
                       crush = \<lparr>SecretCrush_id = fresh_id (map SecretCrush_id (db_crushes (db s))),
                                SecretCrush_crusher_id = User_id crusher_row,
                                SecretCrush_crushee_id = Some (User_id crushee_row),
                                SecretCrush_crush_name = None,
                                SecretCrush_social_media_account = None,
                                SecretCrush_crush_photo = None,
                                SecretCrush_is_mutual = is_mutual\<rparr>;
                       marked = (case mutual_crush of
                                   None \<Rightarrow> db_crushes (db s)
                                 | Some m \<Rightarrow>
                                     map (\<lambda>c. if SecretCrush_id c = SecretCrush_id m
                                               then c\<lparr>SecretCrush_is_mutual := True\<rparr> else c)
                                       (db_crushes (db s)))
                   in if raises f 5 then (Inl DatabaseError, s)
                      else (Inr (), s\<lparr>db := (db s)\<lparr>db_crushes := marked @ [crush]\<rparr>\<rparr>)
             | Some existing_crush \<Rightarrow>
                 if raises f 5 then (Inl DatabaseError, s) else (Inr (), s))
       | _ \<Rightarrow> (Inr (), s)))"

text \<open>
  The \<^verbatim>\<open>try\<close> block for an external crush. Calls: 0 the import and the application
  context, 1 the crusher query, 2 the commit.
\<close>

definition add_external_crush_try ::
    "fault \<Rightarrow> uid \<Rightarrow> string \<Rightarrow> string option \<Rightarrow> string option \<Rightarrow> store \<Rightarrow>
     (exn + unit) \<times> store" where
  "add_external_crush_try f user_id crush_name social_media_account crush_photo s =
     (if raises f 0 \<or> raises f 1 then (Inl DatabaseError, s)
      else
       (case first_user (db s) user_id of
          Some crusher_row \<Rightarrow>
            let crush = \<lparr>SecretCrush_id = fresh_id (map SecretCrush_id (db_crushes (db s))),
                         SecretCrush_crusher_id = User_id crusher_row,
                         SecretCrush_crushee_id = None,
                         SecretCrush_crush_name = Some crush_name,
                         SecretCrush_social_media_account = social_media_account,
                         SecretCrush_crush_photo = crush_photo,
                         SecretCrush_is_mutual = False\<rparr>
            in if raises f 2 then (Inl DatabaseError, s)
               else (Inr (), s\<lparr>db := (db s)\<lparr>db_crushes := db_crushes (db s) @ [crush]\<rparr>\<rparr>)
        | None \<Rightarrow> (Inr (), s)))"

definition add_secret_crush ::
    "fault \<Rightarrow> uid \<Rightarrow> uid option \<Rightarrow> string option \<Rightarrow> string option \<Rightarrow> string option \<Rightarrow>
     store \<Rightarrow> string \<times> store" where
  "add_secret_crush f user_id crush_id crush_name social_media_account crush_photo s =
     (case crush_id of
        Some cid \<Rightarrow>
          let s1 = (if secret_crushes s user_id = None
                    then s\<lparr>secret_crushes := (secret_crushes s)(user_id \<mapsto> {})\<rparr> else s)
          in if cid \<in> get_set (secret_crushes s1) user_id then (''already_added'', s1)
             else
               let s2 = s1\<lparr>secret_crushes :=
                             (secret_crushes s1)(user_id \<mapsto>
                                insert cid (get_set (secret_crushes s1) user_id))\<rparr>
               in (''added'', logged (add_secret_crush_try f user_id cid s2))
      | None \<Rightarrow>
          if crush_name = None \<or> crush_name = Some [] then (''error'', s)
          else (''added_external'',
                logged (add_external_crush_try f user_id (or_empty crush_name)
                          social_media_account crush_photo s)))"

section \<open>Block, report, unmatch, chat\<close>

definition remove_match :: "uid \<Rightarrow> uid \<Rightarrow> (uid \<rightharpoonup> uid set) \<Rightarrow> (uid \<rightharpoonup> uid set)" where
  \<comment> \<open>\<^verbatim>\<open>if a in matches and b in matches[a]: matches[a].remove(b)\<close>\<close>
  "remove_match a b m =
     (case m a of
        None \<Rightarrow> m
      | Some ms \<Rightarrow> if b \<in> ms then m(a \<mapsto> ms - {b}) else m)"

definition clear_match_flags :: "dbid \<Rightarrow> dbid \<Rightarrow> Like list \<Rightarrow> Like list" where
  \<comment> \<open>the bulk update of \<^verbatim>\<open>is_match\<close> to \<^verbatim>\<open>False\<close> on the likes between two users\<close>
  "clear_match_flags a b ls =
     map (\<lambda>l. if (Like_sender_id l = a \<and> Like_receiver_id l = b) \<or>
                  (Like_sender_id l = b \<and> Like_receiver_id l = a)
               then l\<lparr>Like_is_match := False\<rparr> else l) ls"

definition first_block :: "Block list \<Rightarrow> dbid \<Rightarrow> dbid \<Rightarrow> Block option" where
  "first_block bs a b = find (\<lambda>r. Block_blocker_id r = a \<and> Block_blocked_id r = b) bs"

text \<open>
  The \<^verbatim>\<open>try\<close> block of \<^verbatim>\<open>block_user_from_db\<close>. Calls: 0 the import and the
  application context, 1 the blocker query, 2 the blocked query, 3 the query for an
  existing block, 4 the bulk update of the likes, 5 the commit.
\<close>

definition block_user_from_db_try ::
    "fault \<Rightarrow> uid \<Rightarrow> uid \<Rightarrow> store \<Rightarrow> (exn + unit) \<times> store" where
  "block_user_from_db_try f user_id blocked_id s =
     (if raises f 0 \<or> raises f 1 then (Inl DatabaseError, s)
      else let blocker = first_user (db s) user_id in
      if raises f 2 then (Inl DatabaseError, s)
      else let blocked = first_user (db s) blocked_id in
      (case (blocker, blocked) of
         (Some blocker_row, Some blocked_row) \<Rightarrow>
           if raises f 3 then (Inl DatabaseError, s)
           else
             let blocks1 =
                   (case first_block (db_blocks (db s)) (User_id blocker_row) (User_id blocked_row) of
                      None \<Rightarrow> db_blocks (db s) @
                                [\<lparr>Block_id = fresh_id (map Block_id (db_blocks (db s))),
                                  Block_blocker_id = User_id blocker_row,
                                  Block_blocked_id = User_id blocked_row\<rparr>]
                    | Some existing_block \<Rightarrow> db_blocks (db s))
             in if raises f 4 \<or> raises f 5 then (Inl DatabaseError, s)
                else (Inr (), s\<lparr>db := (db s)\<lparr>db_blocks := blocks1,
                                              db_likes := clear_match_flags (User_id blocker_row)
                                                            (User_id blocked_row) (db_likes (db s))\<rparr>\<rparr>)
       | _ \<Rightarrow> (Inr (), s)))"

definition block_user_from_db :: "fault \<Rightarrow> uid \<Rightarrow> uid \<Rightarrow> store \<Rightarrow> store" where
  "block_user_from_db f user_id blocked_id s =
     (let b1 = (if map_of (blocks s) user_id = None
                then AList.update user_id {} (blocks s) else blocks s);
          b2 = AList.update user_id
                 (insert blocked_id (case map_of b1 user_id of None \<Rightarrow> {} | Some bs \<Rightarrow> bs)) b1;
          m1 = remove_match user_id blocked_id (matches s);
          m2 = remove_match blocked_id user_id m1
      in logged (block_user_from_db_try f user_id blocked_id (s\<lparr>blocks := b2, matches := m2\<rparr>)))"

text \<open>
  The \<^verbatim>\<open>try\<close> block of \<^verbatim>\<open>unmatch_user_from_db\<close>. Calls: 0 the import and the
  application context, 1 and 2 the user queries, 3 the bulk update, 4 the commit.
\<close>

definition unmatch_user_from_db_try ::
    "fault \<Rightarrow> uid \<Rightarrow> uid \<Rightarrow> store \<Rightarrow> (exn + unit) \<times> store" where
  "unmatch_user_from_db_try f user_id unmatched_id s =
     (if raises f 0 \<or> raises f 1 then (Inl DatabaseError, s)
      else let user = first_user (db s) user_id in
      if raises f 2 then (Inl DatabaseError, s)
      else let unmatched = first_user (db s) unmatched_id in
      (case (user, unmatched) of
         (Some user_row, Some unmatched_row) \<Rightarrow>
           if raises f 3 \<or> raises f 4 then (Inl DatabaseError, s)
           else (Inr (), s\<lparr>db := (db s)\<lparr>db_likes := clear_match_flags (User_id user_row)
                                                       (User_id unmatched_row) (db_likes (db s))\<rparr>\<rparr>)
       | _ \<Rightarrow> (Inr (), s)))"

definition unmatch_user_from_db :: "fault \<Rightarrow> uid \<Rightarrow> uid \<Rightarrow> store \<Rightarrow> store" where
  "unmatch_user_from_db f user_id unmatched_id s =
     (let m1 = remove_match user_id unmatched_id (matches s);
          m2 = remove_match unmatched_id user_id m1
      in logged (unmatch_user_from_db_try f user_id unmatched_id (s\<lparr>matches := m2\<rparr>)))"

text \<open>
  The \<^verbatim>\<open>try\<close> block of \<^verbatim>\<open>report_user_to_db\<close>. Calls: 0 the import and the
  application context, 1 and 2 the user queries, 3 the commit.
\<close>

definition report_user_to_db_try ::
    "fault \<Rightarrow> uid \<Rightarrow> uid \<Rightarrow> string option \<Rightarrow> store \<Rightarrow> (exn + unit) \<times> store" where
  "report_user_to_db_try f reporter_id reported_id reason s =
     (if raises f 0 \<or> raises f 1 then (Inl DatabaseError, s)
      else let reporter = first_user (db s) reporter_id in
      if raises f 2 then (Inl DatabaseError, s)
      else let reported = first_user (db s) reported_id in
      (case (reporter, reported) of
         (Some reporter_row, Some reported_row) \<Rightarrow>
           if raises f 3 then (Inl DatabaseError, s)
           else (Inr (), s\<lparr>db := (db s)\<lparr>db_reports := db_reports (db s) @
                   [\<lparr>Report_id = fresh_id (map Report_id (db_reports (db s))),
                     Report_reporter_id = User_id reporter_row,
                     Report_reported_id = User_id reported_row,
                     Report_reason = reason\<rparr>]\<rparr>\<rparr>)
       | _ \<Rightarrow> (Inr (), s)))"

definition report_user_to_db :: "fault \<Rightarrow> uid \<Rightarrow> uid \<Rightarrow> string option \<Rightarrow> store \<Rightarrow> store" where
  "report_user_to_db f reporter_id reported_id reason s =
     (let old = (case reports s reporter_id of None \<Rightarrow> [] | Some rs \<Rightarrow> rs)
      in logged (report_user_to_db_try f reporter_id reported_id reason
                   (s\<lparr>reports := (reports s)(reporter_id \<mapsto> old @ [reported_id])\<rparr>)))"

definition chat_key :: "uid \<Rightarrow> uid \<Rightarrow> uid \<times> uid" where
  \<comment> \<open>\<^verbatim>\<open>tuple(sorted([a, b]))\<close>\<close>
  "chat_key a b = (if a \<le> b then (a, b) else (b, a))"

text \<open>
  The \<^verbatim>\<open>try\<close> block of \<^verbatim>\<open>add_chat_message\<close>. Calls: 0 the import and the
  application context, 1 and 2 the user queries, 3 the commit.
\<close>

definition add_chat_message_try ::
    "fault \<Rightarrow> uid \<Rightarrow> uid \<Rightarrow> string \<Rightarrow> store \<Rightarrow> (exn + unit) \<times> store" where
  "add_chat_message_try f sender recipient_id txt s =
     (if raises f 0 \<or> raises f 1 then (Inl DatabaseError, s)
      else let sender_user = first_user (db s) sender in
      if raises f 2 then (Inl DatabaseError, s)
      else let receiver = first_user (db s) recipient_id in
      (case (sender_user, receiver) of
         (Some sender_row, Some receiver_row) \<Rightarrow>
           if raises f 3 then (Inl DatabaseError, s)
           else (Inr (), s\<lparr>db := (db s)\<lparr>db_messages := db_messages (db s) @
                   [\<lparr>Message_id = fresh_id (map Message_id (db_messages (db s))),
                     Message_sender_id = User_id sender_row,
                     Message_receiver_id = User_id receiver_row,
                     Message_text = txt, Message_is_read = False\<rparr>]\<rparr>\<rparr>)
       | _ \<Rightarrow> (Inr (), s)))"

definition add_chat_message ::
    "fault \<Rightarrow> timestamp \<Rightarrow> uid \<Rightarrow> uid \<Rightarrow> string \<Rightarrow> store \<Rightarrow> store" where
  "add_chat_message f now sender recipient_id txt s =
     (let k = chat_key sender recipient_id;
          old = (case chats s k of None \<Rightarrow> [] | Some ms \<Rightarrow> ms);
          msg = \<lparr>sender_id = sender, sent_at = now, text_of = txt\<rparr>
      in logged (add_chat_message_try f sender recipient_id txt
                   (s\<lparr>chats := (chats s)(k \<mapsto> old @ [msg])\<rparr>)))"

subsection \<open>Reading the durable match relation\<close>

definition durable_match :: "database \<Rightarrow> uid \<Rightarrow> uid \<Rightarrow> bool" where
  \<comment> \<open>what \<^verbatim>\<open>load_data_from_db\<close> reads as a match of the first user with the second:
      a like row between their rows, in either direction, with \<^verbatim>\<open>is_match\<close> set\<close>
  "durable_match d a b =
     (case (first_user d a, first_user d b) of
        (Some ra, Some rb) \<Rightarrow>
          list_ex (\<lambda>l. Like_is_match l \<and>
                       ((Like_sender_id l = User_id ra \<and> Like_receiver_id l = User_id rb) \<or>
                        (Like_sender_id l = User_id rb \<and> Like_receiver_id l = User_id ra)))
            (db_likes d)
      | _ \<Rightarrow> False)"

definition durable_like_count :: "database \<Rightarrow> uid \<Rightarrow> uid \<Rightarrow> nat" where
  \<comment> \<open>the number of like rows from the first user's row to the second's\<close>
  "durable_like_count d a b =
     (case (first_user d a, first_user d b) of
        (Some ra, Some rb) \<Rightarrow>
          length (filter (\<lambda>l. Like_sender_id l = User_id ra \<and> Like_receiver_id l = User_id rb)
                    (db_likes d))
      | _ \<Rightarrow> 0)"

section \<open>The registration flow: target universities\<close>

datatype conv_state =
  NAME | AGE | GENDER | PROFILE_PIC | UNIVERSITY | TARGET_UNIVERSITIES | HOBBIES | BIO |
  RELATIONSHIP_PREFERENCE | COMPLETED

definition UNIVERSITY_LIST :: "string list" where
  "UNIVERSITY_LIST =
     [''Addis Ababa University'', ''Adama Science and Technology University'',
      ''Bahir Dar University'', ''Debre Berhan University'', ''Dire Dawa University'',
      ''Ethiopian Civil Service University'', ''Gondar University'', ''Hawassa University'',
      ''Haramaya University'', ''Jimma University'', ''Mekelle University'',
      ''Woldia University'', ''Wollo University'', ''Arba Minch University'',
      ''Axum University'', ''Dilla University'', ''Mizan-Tepi University'',
      ''Wolkite University'', ''Wolaita Sodo University'', ''Wachemo University'']"

fun split_on :: "char \<Rightarrow> string \<Rightarrow> string list" where
  \<comment> \<open>\<^verbatim>\<open>str.split(sep)\<close> for a separator of one character\<close>
  "split_on c [] = [] # []"
| "split_on c (x # xs) =
     (if x = c then [] # split_on c xs
      else (case split_on c xs of [] \<Rightarrow> [x] # [] | w # ws \<Rightarrow> (x # w) # ws))"

definition py_index :: "'a list \<Rightarrow> int \<Rightarrow> 'a option" where
  \<comment> \<open>\<^verbatim>\<open>xs[i]\<close>: a negative index counts from the end, \<open>None\<close> is \<^verbatim>\<open>IndexError\<close>\<close>
  "py_index xs i =
     (let n = int (length xs); j = (if i < 0 then n + i else i)
      in if 0 \<le> j \<and> j < n then Some (xs ! nat j) else None)"

definition is_space :: "char \<Rightarrow> bool" where
  \<comment> \<open>the white space that \<^verbatim>\<open>int()\<close> strips from an ASCII string: tab, line feed,
      vertical tab, form feed, carriage return and space\<close>
  "is_space c = (let n = (of_char c :: nat) in (9 \<le> n \<and> n \<le> 13) \<or> n = 32)"

definition is_digit :: "char \<Rightarrow> bool" where
  "is_digit c = (let n = (of_char c :: nat) in 48 \<le> n \<and> n \<le> 57)"

definition py_int :: "string \<Rightarrow> int option" where
  \<comment> \<open>\<^verbatim>\<open>int(s)\<close> on ASCII text: surrounding white space, an optional sign, decimal
      digits; \<open>None\<close> is \<^verbatim>\<open>ValueError\<close>. (Underscores between digits cannot occur in a
      piece of a string split at underscores.)\<close>
  "py_int s =
     (let t = rev (dropWhile is_space (rev (dropWhile is_space s)));
          neg = (case t of [] \<Rightarrow> False | c # _ \<Rightarrow> c = CHR ''-'');
          ds = (case t of [] \<Rightarrow> []
                | c # r \<Rightarrow> if c = CHR ''-'' \<or> c = CHR ''+'' then r else t)
      in if ds = [] \<or> \<not> list_all is_digit ds then None
         else let v = int (fold (\<lambda>c n. 10 * n + (of_char c - 48)) ds 0)
              in Some (if neg then - v else v))"

definition select_university :: "string \<Rightarrow> string list option \<Rightarrow> string list" where
  \<comment> \<open>lines 350-358 of \<^verbatim>\<open>handle_target_universities\<close>\<close>
  "select_university selected_university current =
     (let l0 = (case current of None \<Rightarrow> [] | Some l \<Rightarrow> l);
          l1 = (if ''All'' \<in> set l0 then [] else l0)
      in if selected_university \<notin> set l1 then l1 @ [selected_university] else l1)"

text \<open>
  \<^verbatim>\<open>handle_target_universities\<close>. The inputs are the callback data and the user id of
  the update; \<open>fg\<close> and \<open>fs\<close> are the faults of the profile read and of the profile
  write. The answers sent to Telegram do not touch the store and are left out. The
  result is the next conversation state, or the exception that leaves the handler.
\<close>

definition handle_target_universities ::
    "fault \<Rightarrow> fault \<Rightarrow> uid \<Rightarrow> string \<Rightarrow> store \<Rightarrow> (exn + conv_state) \<times> store" where
  "handle_target_universities fg fs user_id data s =
     (case get_user_profile fg user_id s of (user_profile_opt, s0) \<Rightarrow>
        if data = ''target_all'' then
          (case user_profile_opt of
             None \<Rightarrow> (Inl TypeError, s0)
           | Some user_profile \<Rightarrow>
               (Inr HOBBIES,
                save_user_profile fs user_id
                  (user_profile\<lparr>target_universities := Some [''All'']\<rparr>) s0))
        else if data = ''target_done'' then
          (case user_profile_opt of
             None \<Rightarrow> (Inl AttributeError, s0)
           | Some user_profile \<Rightarrow>
               if targets_or_empty user_profile = [] then (Inr TARGET_UNIVERSITIES, s0)
               else (Inr HOBBIES, s0))
        else
          (case py_index (split_on CHR ''_'' data) 1 of
             None \<Rightarrow> (Inl IndexError, s0)
           | Some piece \<Rightarrow>
               (case py_int piece of
                  None \<Rightarrow> (Inl ValueError, s0)
                | Some university_idx \<Rightarrow>
                    (case py_index UNIVERSITY_LIST university_idx of
                       None \<Rightarrow> (Inl IndexError, s0)
                     | Some selected_university \<Rightarrow>
                         (case user_profile_opt of
                            None \<Rightarrow> (Inl TypeError, s0)
                          | Some user_profile \<Rightarrow>
                              let p1 = user_profile\<lparr>target_universities :=
                                         Some (select_university selected_university
                                                 (target_universities user_profile))\<rparr>;
                                  s1 = save_user_profile fs user_id p1 s0
                              in (case university p1 of
                                    None \<Rightarrow> (Inl KeyError, s1)
                                  | Some u \<Rightarrow> (Inr TARGET_UNIVERSITIES, s1)))))))"

section \<open>Auxiliary predicates and example stores\<close>

definition empty_database :: database where
  "empty_database =
     \<lparr>db_users = [], db_target_universities = [], db_likes = [], db_messages = [],
      db_crushes = [], db_blocks = [], db_reports = []\<rparr>"

definition empty_store :: store where
  \<comment> \<open>the store of a fresh process on an empty database\<close>
  "empty_store =
     \<lparr>user_profiles = [], matches = Map.empty, likes = Map.empty, blocks = [],
      reports = Map.empty, secret_crushes = Map.empty, chats = Map.empty,
      db = empty_database\<rparr>"

definition example_user :: "dbid \<Rightarrow> uid \<Rightarrow> string \<Rightarrow> User" where
  "example_user k tid g =
     \<lparr>User_id = k, User_telegram_id = tid, User_name = ''user'', User_age = 20,
      User_gender = g, User_university = ''Addis Ababa University'', User_bio = Some [],
      User_hobbies = Some [], User_relationship_preference = Some [],
      User_profile_pic_url = Some [], User_profile_pic = Some []\<rparr>"

definition diverged_store :: store where
  \<comment> \<open>the durable table holds a like of user 10 for user 20; memory holds nothing\<close>
  "diverged_store =
     empty_store\<lparr>db := empty_database
       \<lparr>db_users := [example_user 1 10 ''male'', example_user 2 20 ''female''],
        db_likes := [\<lparr>Like_id = 1, Like_sender_id = 1, Like_receiver_id = 2,
                      Like_is_match = False\<rparr>]\<rparr>\<rparr>"

definition keeps :: "uid \<Rightarrow> profile \<Rightarrow> uid set \<Rightarrow> uid \<times> profile \<Rightarrow> bool" where
  \<comment> \<open>the entries for which the loop of \<^verbatim>\<open>get_potential_matches\<close> reaches its
      \<^verbatim>\<open>append\<close>; used to state what the loop returns\<close>
  "keeps u p ex e = (fst e \<noteq> u \<and> truthy_flag (profile_complete (snd e)) \<and> fst e \<notin> ex \<and>
          \<not> gender_skip (gender p) (gender (snd e)) \<and>
          uni_ok (targets_or_empty p) (university (snd e)))"

definition keeps_new :: "uid \<Rightarrow> profile \<Rightarrow> store \<Rightarrow> uid \<times> profile \<Rightarrow> bool" where
  \<comment> \<open>the same for the loop of \<^verbatim>\<open>data_store_new.py\<close>\<close>
  "keeps_new u p s e = (fst e \<noteq> u \<and> truthy_flag (profile_complete (snd e)) \<and>
          fst e \<notin> get_set (likes s) u \<and>
          fst e \<notin> (case map_of (blocks s) u of None \<Rightarrow> {} | Some bs \<Rightarrow> bs) \<and>
          fst e \<notin> blocked_by u s \<and> fst e \<notin> get_set (matches s) u \<and>
          \<not> gender_skip (gender p) (gender (snd e)) \<and>
          uni_ok (targets_or_empty (snd e)) (university p) \<and>
          uni_ok (targets_or_empty p) (university (snd e)))"

definition example_profile :: "string \<Rightarrow> string \<Rightarrow> string list \<Rightarrow> profile" where
  \<comment> \<open>a complete profile with the given gender, university and target list\<close>
  "example_profile g uni targets =
     empty_profile\<lparr>name := Some ''user'', age := Some 20, gender := Some g,
       university := Some uni, target_universities := Some targets,
       profile_complete := Some True\<rparr>"


definition one_sided_store :: store where
  \<comment> \<open>user 1 accepts every university; user 2 only one that is not user 1's\<close>
  "one_sided_store =
     empty_store\<lparr>user_profiles :=
       [(1, example_profile ''male'' ''Addis Ababa University'' [''All'']),
        (2, example_profile ''female'' ''Bahir Dar University'' [''Jimma University''])]\<rparr>"

definition all_targets_store :: store where
  \<comment> \<open>two complete profiles of opposite gender that both accept every university\<close>
  "all_targets_store =
     empty_store\<lparr>user_profiles :=
       [(1, example_profile ''male'' ''Addis Ababa University'' [''All'']),
        (2, example_profile ''female'' ''Bahir Dar University'' [''All''])]\<rparr>"

definition matched_store :: store where
  \<comment> \<open>users 10 and 20 are matched, in memory and in the durable likes table\<close>
  "matched_store =
     empty_store\<lparr>matches := [10 \<mapsto> {20}, 20 \<mapsto> {10}],
       likes := [10 \<mapsto> {20}, 20 \<mapsto> {10}],
       db := empty_database
         \<lparr>db_users := [example_user 1 10 ''male'', example_user 2 20 ''female''],
          db_likes := [\<lparr>Like_id = 1, Like_sender_id = 1, Like_receiver_id = 2,
                        Like_is_match = True\<rparr>,
                       \<lparr>Like_id = 2, Like_sender_id = 2, Like_receiver_id = 1,
                        Like_is_match = True\<rparr>]\<rparr>\<rparr>"

definition no_fault :: "fault \<Rightarrow> nat \<Rightarrow> bool" where
  \<comment> \<open>none of the calls 0 to \<open>n\<close> raises\<close>
  "no_fault f n = (case f of None \<Rightarrow> True | Some k \<Rightarrow> n < k)"

definition registered_store :: store where
  \<comment> \<open>users 10 and 20 have rows in the users table; nothing else is stored\<close>
  "registered_store =
     empty_store\<lparr>db := empty_database
       \<lparr>db_users := [example_user 1 10 ''male'', example_user 2 20 ''female'']\<rparr>\<rparr>"


definition picking_store :: store where
  \<comment> \<open>user 1 is in the target-universities step and has selected one university\<close>
  "picking_store =
     empty_store\<lparr>user_profiles :=
       [(1, empty_profile\<lparr>name := Some ''user'', age := Some 20, gender := Some ''male'',
              university := Some ''Jimma University'',
              target_universities := Some [''Addis Ababa University'']\<rparr>)]\<rparr>"

definition matched_profiles_store :: store where
  \<comment> \<open>users 10 and 20 like each other and are matched, in memory and in the table; they
      and user 30 have complete profiles that accept every university\<close>
  "matched_profiles_store =
     matched_store\<lparr>user_profiles :=
       [(10, example_profile ''male'' ''Addis Ababa University'' [''All'']),
        (20, example_profile ''female'' ''Bahir Dar University'' [''All'']),
        (30, example_profile ''female'' ''Jimma University'' [''All''])]\<rparr>"

definition durable_like_store :: store where
  \<comment> \<open>users 10 and 20 have complete profiles; the like of 10 for 20 is a row of the table
      that the in-memory like sets do not hold\<close>
  "durable_like_store =
     diverged_store\<lparr>user_profiles :=
       [(10, example_profile ''male'' ''Addis Ababa University'' [''All'']),
        (20, example_profile ''female'' ''Bahir Dar University'' [''All''])]\<rparr>"

definition durable_match_store :: store where
  \<comment> \<open>the store after user 20 has liked user 10 there: lines 401-418 have matched the two,
      and the like set of user 10 still lacks user 20\<close>
  "durable_match_store = snd (process_match_decision None 20 10 True durable_like_store)"



section \<open>Properties of the decision processor\<close>

lemma add_match_both:
  "other_id \<in> get_set (add_match user_id other_id m) user_id \<and>
   user_id \<in> get_set (add_match user_id other_id m) other_id"
  by (simp add: add_match_def get_set_def Let_def)

lemma add_match_mono:
  "x \<in> get_set m k \<Longrightarrow> x \<in> get_set (add_match user_id other_id m) k"
  by (auto simp: add_match_def get_set_def Let_def split: option.splits)

lemma try_likes: "likes (snd (process_match_decision_try f u t s)) = likes s"
  by (simp add: process_match_decision_try_def Let_def split: option.splits)

lemma try_shape:
  "process_match_decision_try f u t s = (r, s') \<Longrightarrow>
     (r = Inr (Some ''match'') \<and> matches s' = add_match u t (matches s)) \<or>
     (r \<noteq> Inr (Some ''match'') \<and> (\<forall>x. r \<noteq> Inr (Some x)) \<and>
        (matches s' = matches s \<or> matches s' = add_match u t (matches s)))"
  by (auto simp: process_match_decision_try_def Let_def split: option.splits if_splits)


lemma like_recorded:
  "t \<in> get_set (likes (snd (process_match_decision f u t True s))) u"
proof -
  let ?s1 = "s\<lparr>likes := (likes s)(u \<mapsto> insert t (get_set (likes s) u))\<rparr>"
  obtain r s2 where tr: "process_match_decision_try f u t ?s1 = (r, s2)"
    by (cases "process_match_decision_try f u t ?s1")
  have "likes s2 = likes ?s1" using try_likes [of f u t ?s1] tr by simp
  then have "t \<in> get_set (likes s2) u" by (simp add: get_set_def)
  then show ?thesis
    using tr by (auto simp: process_match_decision_def Let_def split: sum.splits option.splits)
qed

lemma relike_match:
  assumes "u \<in> get_set (likes s) t"
  shows "fst (process_match_decision f u t True s) = ''match'' \<and>
         t \<in> get_set (matches (snd (process_match_decision f u t True s))) u \<and>
         u \<in> get_set (matches (snd (process_match_decision f u t True s))) t"
proof -
  let ?s1 = "s\<lparr>likes := (likes s)(u \<mapsto> insert t (get_set (likes s) u))\<rparr>"
  obtain r s2 where tr: "process_match_decision_try f u t ?s1 = (r, s2)"
    by (cases "process_match_decision_try f u t ?s1")
  have "likes s2 = likes ?s1" using try_likes [of f u t ?s1] tr by simp
  with assms have bk: "u \<in> get_set (likes s2) t" by (auto simp: get_set_def)
  from try_shape [OF tr] show ?thesis
  proof
    assume "r = Inr (Some ''match'') \<and> matches s2 = add_match u t (matches ?s1)"
    then show ?thesis using tr add_match_both [of t u "matches ?s1"]
      by (simp add: process_match_decision_def Let_def)
  next
    assume h: "r \<noteq> Inr (Some ''match'') \<and> (\<forall>x. r \<noteq> Inr (Some x)) \<and>
        (matches s2 = matches ?s1 \<or> matches s2 = add_match u t (matches ?s1))"
    then have "process_match_decision f u t True s =
        (''match'', s2\<lparr>matches := add_match u t (matches s2)\<rparr>)"
      using tr bk
      by (auto simp: process_match_decision_def Let_def split: sum.splits option.splits)
    then show ?thesis using add_match_both [of t u "matches s2"] by simp
  qed
qed

text \<open>
  Claim C1 (mutual-like detection). Whatever the store and whatever the durable store
  does in either call: when \<open>a\<close> likes \<open>b\<close> and then \<open>b\<close> likes \<open>a\<close>, the second
  call returns \<^verbatim>\<open>"match"\<close> (the source's name of the matched outcome), and afterwards
  each of the two is in the other's in-memory match set.
\<close>

theorem mutual_like_detection:
  "fst (process_match_decision f2 b a True (snd (process_match_decision f1 a b True s)))
     = ''match'' \<and>
   a \<in> get_set (matches (snd (process_match_decision f2 b a True
                                (snd (process_match_decision f1 a b True s))))) b \<and>
   b \<in> get_set (matches (snd (process_match_decision f2 b a True
                                (snd (process_match_decision f1 a b True s))))) a"
  using relike_match [OF like_recorded [of b f1 a s], of f2] by simp

theorem mutual_like_detection_witness:
  "fst (process_match_decision None 2 1 True
          (snd (process_match_decision None 1 2 True empty_store))) = ''match'' \<and>
   1 \<in> get_set (matches (snd (process_match_decision None 2 1 True
                                (snd (process_match_decision None 1 2 True empty_store))))) 2 \<and>
   2 \<in> get_set (matches (snd (process_match_decision None 2 1 True
                                (snd (process_match_decision None 1 2 True empty_store))))) 1"
  by (rule mutual_like_detection)

lemma find_user_row:
  "first_user d x = Some r \<Longrightarrow> r \<in> set (db_users d) \<and> User_telegram_id r = x"
  by (auto simp: first_user_def find_Some_iff)

lemma distinct_rows:
  assumes "distinct (map User_id (db_users d))"
      and "first_user d u = Some ru" and "first_user d t = Some rt" and "u \<noteq> t"
  shows "User_id ru \<noteq> User_id rt"
proof
  assume e: "User_id ru = User_id rt"
  have "ru \<in> set (db_users d)" "rt \<in> set (db_users d)"
    using assms(2,3) find_user_row by blast+
  with assms(1) e have "ru = rt" by (meson distinct_map inj_on_eq_iff)
  with assms(2,3,4) find_user_row show False by blast
qed

lemma find_append_one:
  "find P xs = None \<Longrightarrow> find P (xs @ [x]) = (if P x then Some x else None)"
  by (induction xs) auto

lemma count_zero_find:
  "length (filter P xs) = 0 \<Longrightarrow> find P xs = None"
  by (induction xs) (auto split: if_splits)

lemma try_no_match:
  assumes pk: "distinct (map User_id (db_users (db s)))"
      and ne: "u \<noteq> t"
      and none: "durable_like_count (db s) t u = 0"
  shows "fst (process_match_decision_try f u t s) \<noteq> Inr (Some x)"
proof (cases "first_user (db s) u")
  case None
  then show ?thesis by (simp add: process_match_decision_try_def Let_def)
next
  case (Some ru)
  show ?thesis
  proof (cases "first_user (db s) t")
    case None
    with Some show ?thesis by (simp add: process_match_decision_try_def Let_def)
  next
    case (Some rt)
    note su = \<open>first_user (db s) u = Some ru\<close>
    have ids: "User_id ru \<noteq> User_id rt" using distinct_rows [OF pk su Some ne] .
    have "find (\<lambda>l. Like_sender_id l = User_id rt \<and> Like_receiver_id l = User_id ru)
            (db_likes (db s)) = None"
      using none su Some by (simp add: durable_like_count_def count_zero_find)
    then have "first_like (db_likes (db s) @ [l]) (User_id rt) (User_id ru) =
          (if Like_sender_id l = User_id rt \<and> Like_receiver_id l = User_id ru
           then Some l else None)" for l
      by (simp add: first_like_def find_append_one)
    with ids su Some show ?thesis
      by (auto simp: process_match_decision_try_def Let_def split: option.splits)
  qed
qed

text \<open>
  Claim C10, amended. The decision processor checks neither identity against the profile
  store: for every pair of ids the like is recorded in the in-memory like set of the
  sender. For two distinct ids with no like from the target back to the sender, neither
  in memory nor in the durable table, the call returns \<^verbatim>\<open>"liked"\<close>. (The hypothesis
  is that the users table has a primary key.)
\<close>

theorem like_needs_no_profile:
  assumes "distinct (map User_id (db_users (db s)))"
  shows "t \<in> get_set (likes (snd (process_match_decision f u t True s))) u \<and>
         (u \<noteq> t \<and> u \<notin> get_set (likes s) t \<and> durable_like_count (db s) t u = 0 \<longrightarrow>
            fst (process_match_decision f u t True s) = ''liked'')"
proof
  show "t \<in> get_set (likes (snd (process_match_decision f u t True s))) u"
    by (rule like_recorded)
next
  show "u \<noteq> t \<and> u \<notin> get_set (likes s) t \<and> durable_like_count (db s) t u = 0 \<longrightarrow>
            fst (process_match_decision f u t True s) = ''liked''"
  proof
    assume h: "u \<noteq> t \<and> u \<notin> get_set (likes s) t \<and> durable_like_count (db s) t u = 0"
    let ?s1 = "s\<lparr>likes := (likes s)(u \<mapsto> insert t (get_set (likes s) u))\<rparr>"
    obtain r s2 where tr: "process_match_decision_try f u t ?s1 = (r, s2)"
      by (cases "process_match_decision_try f u t ?s1")
    have "r \<noteq> Inr (Some x)" for x
      using try_no_match [of ?s1 u t f x] assms h tr by simp
    moreover have "likes s2 = likes ?s1" using try_likes [of f u t ?s1] tr by simp
    then have "u \<notin> get_set (likes s2) t" using h by (simp add: get_set_def)
    ultimately show "fst (process_match_decision f u t True s) = ''liked''"
      using tr by (auto simp: process_match_decision_def Let_def split: sum.splits option.splits)
  qed
qed

theorem like_needs_no_profile_witness:
  "2 \<in> get_set (likes (snd (process_match_decision None 1 2 True empty_store))) 1 \<and>
   fst (process_match_decision None 1 2 True empty_store) = ''liked''"
  using like_needs_no_profile [of empty_store 2 None 1]
  by (simp add: empty_store_def empty_database_def durable_like_count_def first_user_def
                get_set_def)

text \<open>
  The claim as stated fails when a user likes their own id: no like exists before the
  call, neither profile exists, and the call returns \<^verbatim>\<open>"match"\<close>, because the edge
  just recorded is its own reverse.
\<close>

theorem self_like_counterexample:
  "1 \<notin> get_set (likes empty_store) 1 \<and> durable_like_count (db empty_store) 1 1 = 0 \<and>
   map_of (user_profiles empty_store) 1 = None \<and>
   fst (process_match_decision None 1 1 True empty_store) = ''match''"
  by (simp add: empty_store_def empty_database_def durable_like_count_def first_user_def
        get_set_def process_match_decision_def process_match_decision_try_def raises_def
        Let_def)

text \<open>
  Repeating a like never adds a second row for the same ordered pair: the insert is
  guarded by the query for an existing row.
\<close>

lemma find_none_filter: "find P xs = None \<Longrightarrow> filter P xs = []"
  by (induction xs) (auto split: if_splits)

lemma flag_match_count:
  "length (filter (\<lambda>l. Like_sender_id l = x \<and> Like_receiver_id l = y) (flag_match k ls)) =
   length (filter (\<lambda>l. Like_sender_id l = x \<and> Like_receiver_id l = y) ls)"
  by (induction ls) (simp_all add: flag_match_def)

lemma try_users: "db_users (db (snd (process_match_decision_try f u t s))) = db_users (db s)"
  by (simp add: process_match_decision_try_def Let_def split: option.splits)

lemma try_like_count:
  assumes "durable_like_count (db s) u t \<le> 1"
  shows "durable_like_count (db (snd (process_match_decision_try f u t s))) u t \<le> 1"
proof (cases "first_user (db s) u")
  case None
  then show ?thesis
    by (simp add: durable_like_count_def first_user_def try_users)
next
  case (Some ru)
  note su = this
  show ?thesis
  proof (cases "first_user (db s) t")
    case None
    with su show ?thesis
      by (simp add: durable_like_count_def first_user_def try_users)
  next
    case (Some rt)
    let ?P = "\<lambda>l. Like_sender_id l = User_id ru \<and> Like_receiver_id l = User_id rt"
    have cnt: "durable_like_count (db (snd (process_match_decision_try f u t s))) u t =
          length (filter ?P (db_likes (db (snd (process_match_decision_try f u t s)))))"
      using su Some by (simp add: durable_like_count_def first_user_def try_users)
    have old: "length (filter ?P (db_likes (db s))) \<le> 1"
      using assms su Some by (simp add: durable_like_count_def)
    show ?thesis
    proof (cases "find ?P (db_likes (db s))")
      case None
      then have "filter ?P (db_likes (db s)) = []" by (rule find_none_filter)
      then show ?thesis unfolding cnt using su Some None
        by (simp add: process_match_decision_try_def first_like_def Let_def flag_match_count
                 split: option.splits)
    next
      case (Some e)
      then show ?thesis unfolding cnt using su \<open>first_user (db s) t = Some rt\<close> old
        by (simp add: process_match_decision_try_def first_like_def Let_def)
    qed
  qed
qed

lemma relike_no_duplicate_row:
  assumes "durable_like_count (db s) u t \<le> 1"
  shows "durable_like_count (db (snd (process_match_decision f u t is_like s))) u t \<le> 1"
proof (cases is_like)
  case False
  with assms show ?thesis by (simp add: process_match_decision_def)
next
  case True
  let ?s1 = "s\<lparr>likes := (likes s)(u \<mapsto> insert t (get_set (likes s) u))\<rparr>"
  obtain r s2 where tr: "process_match_decision_try f u t ?s1 = (r, s2)"
    by (cases "process_match_decision_try f u t ?s1")
  have "durable_like_count (db s2) u t \<le> 1"
    using try_like_count [of ?s1 u t f] assms tr by simp
  then show ?thesis using True tr
    by (auto simp: process_match_decision_def Let_def split: sum.splits option.splits)
qed

text \<open>
  Claim C2 at a store whose durable table holds a like from user 10 to user 20 that the
  in-memory like sets do not hold (the state after a start at which the load of the
  tables failed). The first like of 20 for 10 finds the reverse row and returns
  \<^verbatim>\<open>"match"\<close>; the repeated call finds its own row, skips the reverse check, and the
  in-memory check returns \<^verbatim>\<open>"liked"\<close> although 10 is in the match set of 20.
\<close>

theorem relike_after_durable_match:
  "fst (process_match_decision None 20 10 True diverged_store) = ''match'' \<and>
   10 \<in> get_set (matches (snd (process_match_decision None 20 10 True diverged_store))) 20 \<and>
   fst (process_match_decision None 20 10 True
          (snd (process_match_decision None 20 10 True diverged_store))) = ''liked''"
  by (simp add: diverged_store_def empty_store_def empty_database_def example_user_def
        first_user_def first_like_def fresh_id_def flag_match_def add_match_def
        get_set_def process_match_decision_def process_match_decision_try_def raises_def
        Let_def)

section \<open>Properties of the matching filter\<close>

lemma scan_filter:
  "scan_profiles u p ex l = map fst (filter (keeps u p ex) l)"
proof (induction l)
  case Nil
  then show ?case by simp
next
  case (Cons e l)
  obtain a b where e: "e = (a, b)" by (cases e)
  show ?case
  proof (cases "keeps u p ex (a, b)")
    case True
    then show ?thesis using Cons.IH unfolding e by (simp add: keeps_def)
  next
    case False
    then show ?thesis using Cons.IH unfolding e by (simp add: keeps_def)
  qed
qed

lemma scan_new_filter:
  "scan_profiles_new u p s l = map fst (filter (keeps_new u p s) l)"
proof (induction l)
  case Nil
  then show ?case by simp
next
  case (Cons e l)
  obtain a b where e: "e = (a, b)" by (cases e)
  show ?case
  proof (cases "keeps_new u p s (a, b)")
    case True
    then show ?thesis using Cons.IH unfolding e by (simp add: keeps_new_def)
  next
    case False
    then show ?thesis using Cons.IH unfolding e by (simp add: keeps_new_def Let_def)
  qed
qed

lemma scan_iff:
  "c \<in> set (scan_profiles u p ex l) \<longleftrightarrow> (\<exists>q. (c, q) \<in> set l \<and> keeps u p ex (c, q))"
  unfolding scan_filter by force

lemma scan_new_iff:
  "c \<in> set (scan_profiles_new u p s l) \<longleftrightarrow> (\<exists>q. (c, q) \<in> set l \<and> keeps_new u p s (c, q))"
  unfolding scan_new_filter by force

lemma shuffle_loop_mset:
  "k < length xs \<Longrightarrow> mset (shuffle_loop k rs xs) = mset xs"
proof (induction k arbitrary: rs xs)
  case 0
  then show ?case by simp
next
  case (Suc k)
  define j where "j = (case rs of [] \<Rightarrow> 0 | r # _ \<Rightarrow> r mod Suc (Suc k))"
  have jb: "j < length xs"
  proof (cases rs)
    case Nil
    then show ?thesis using Suc.prems by (auto simp: j_def)
  next
    case (Cons r rest)
    have "r mod Suc (Suc k) < Suc (Suc k)" by (rule mod_less_divisor) simp
    also have "Suc (Suc k) \<le> length xs" using Suc.prems by simp
    finally show ?thesis using Cons by (simp add: j_def)
  qed
  let ?ys = "xs[Suc k := xs ! j, j := xs ! Suc k]"
  have "mset ?ys = mset xs" using mset_swap [of j xs "Suc k"] jb Suc.prems by simp
  moreover have "k < length ?ys" using Suc.prems by simp
  ultimately have "mset (shuffle_loop k (tl rs) ?ys) = mset xs"
    using Suc.IH [of ?ys "tl rs"] by simp
  then show ?case by (simp add: j_def Let_def)
qed

lemma set_shuffle: "set (shuffle rs xs) = set xs"
proof (cases xs)
  case Nil
  then show ?thesis by (simp add: shuffle_def)
next
  case (Cons x rest)
  then have "length xs - 1 < length xs" by simp
  then have "mset (shuffle rs xs) = mset xs"
    unfolding shuffle_def by (rule shuffle_loop_mset)
  then show ?thesis by (rule mset_eq_setD)
qed

lemma blocked_fold:
  "x \<in> fold (\<lambda>(other_id, other_blocked) e.
               if u \<in> other_blocked then insert other_id e else e) bl e0
   \<longleftrightarrow> x \<in> e0 \<or> (\<exists>bs. (x, bs) \<in> set bl \<and> u \<in> bs)"
proof (induction bl arbitrary: e0)
  case Nil
  then show ?case by simp
next
  case (Cons e bl)
  obtain a b where e: "e = (a, b)" by (cases e)
  show ?case unfolding e using Cons.IH [of "if u \<in> b then insert a e0 else e0"]
    by (cases "u \<in> b") auto
qed

lemma excluded_iff:
  "x \<in> excluded_users u s \<longleftrightarrow>
     x \<in> get_set (likes s) u \<or>
     x \<in> (case map_of (blocks s) u of None \<Rightarrow> {} | Some bs \<Rightarrow> bs) \<or>
     x \<in> blocked_by u s \<or>
     x \<in> get_set (matches s) u"
  by (auto simp: excluded_users_def blocked_by_def blocked_fold get_set_def Let_def
           split: option.splits)

lemma get_user_profile_frame:
  "likes (snd (get_user_profile f u s)) = likes s \<and>
   matches (snd (get_user_profile f u s)) = matches s \<and>
   blocks (snd (get_user_profile f u s)) = blocks s \<and>
   db (snd (get_user_profile f u s)) = db s"
  by (simp add: get_user_profile_def Let_def split: option.splits)

lemma get_user_profile_cached:
  "map_of (user_profiles s) u = Some p \<Longrightarrow> get_user_profile f u s = (Some p, s)"
  by (simp add: get_user_profile_def)

lemma get_user_profile_distinct:
  "distinct (map fst (user_profiles s)) \<Longrightarrow>
   distinct (map fst (user_profiles (snd (get_user_profile f u s))))"
  by (simp add: get_user_profile_def Let_def distinct_update split: option.splits)

lemma candidates_iff:
  "c \<in> set (fst (get_potential_matches f rs u s)) \<longleftrightarrow>
     (\<exists>p q. fst (get_user_profile f u s) = Some p \<and> p \<noteq> empty_profile \<and>
            truthy_flag (profile_complete p) \<and>
            (c, q) \<in> set (user_profiles (snd (get_user_profile f u s))) \<and>
            keeps u p (excluded_users u (snd (get_user_profile f u s))) (c, q))"
proof -
  obtain po s1 where g: "get_user_profile f u s = (po, s1)"
    by (cases "get_user_profile f u s")
  show ?thesis
  proof (cases po)
    case None
    with g show ?thesis by (simp add: get_potential_matches_def)
  next
    case (Some p)
    with g show ?thesis by (simp add: get_potential_matches_def set_shuffle scan_iff)
  qed
qed

lemma candidates_state:
  "snd (get_potential_matches f rs u s) = snd (get_user_profile f u s)"
proof -
  obtain po s1 where g: "get_user_profile f u s = (po, s1)"
    by (cases "get_user_profile f u s")
  then show ?thesis by (cases po) (simp_all add: get_potential_matches_def)
qed

lemma keeps_new_iff:
  "keeps_new u p s e \<longleftrightarrow>
     keeps u p (excluded_users u s) e \<and> uni_ok (targets_or_empty (snd e)) (university p)"
  unfolding keeps_new_def keeps_def excluded_iff by blast

lemma candidates_new_iff:
  "c \<in> set (get_potential_matches_new rs u s) \<longleftrightarrow>
     (\<exists>p q. map_of (user_profiles s) u = Some p \<and> p \<noteq> empty_profile \<and>
            truthy_flag (profile_complete p) \<and>
            (c, q) \<in> set (user_profiles s) \<and>
            keeps u p (excluded_users u s) (c, q) \<and>
            uni_ok (targets_or_empty q) (university p))"
proof (cases "map_of (user_profiles s) u")
  case None
  then show ?thesis by (simp add: get_potential_matches_new_def get_user_profile_new_def)
next
  case (Some p)
  then show ?thesis
    by (simp add: get_potential_matches_new_def get_user_profile_new_def set_shuffle
          scan_new_iff keeps_new_iff)
qed

text \<open>
  What the filter guarantees. In a store whose profile dictionary has unique keys, a
  candidate returned by \<^verbatim>\<open>get_potential_matches\<close> is never the requester; and when the
  requester's gender is \<^verbatim>\<open>"male"\<close> the candidate's is \<^verbatim>\<open>"female"\<close>, when it is
  \<^verbatim>\<open>"female"\<close> the candidate's is \<^verbatim>\<open>"male"\<close>.
\<close>

theorem candidate_filter_exclusions:
  assumes "distinct (map fst (user_profiles s))"
      and "c \<in> set (fst (get_potential_matches f rs user_id s))"
  shows "c \<noteq> user_id \<and>
         (\<exists>p q. fst (get_user_profile f user_id s) = Some p \<and>
                map_of (user_profiles (snd (get_potential_matches f rs user_id s))) c = Some q \<and>
                (gender p = Some ''male'' \<longrightarrow> gender q = Some ''female'') \<and>
                (gender p = Some ''female'' \<longrightarrow> gender q = Some ''male'') \<and>
                (gender p = Some ''male'' \<or> gender p = Some ''female'' \<longrightarrow>
                   gender q \<noteq> gender p))"
proof -
  from assms(2) obtain p q where
    h: "fst (get_user_profile f user_id s) = Some p"
       "(c, q) \<in> set (user_profiles (snd (get_user_profile f user_id s)))"
       "keeps user_id p (excluded_users user_id (snd (get_user_profile f user_id s))) (c, q)"
    unfolding candidates_iff by blast
  from h(3) have ne: "c \<noteq> user_id" and gs: "\<not> gender_skip (gender p) (gender q)"
    by (simp_all add: keeps_def)
  have "distinct (map fst (user_profiles (snd (get_user_profile f user_id s))))"
    using assms(1) by (rule get_user_profile_distinct)
  with h(2) have "map_of (user_profiles (snd (get_user_profile f user_id s))) c = Some q"
    by simp
  then have m: "map_of (user_profiles (snd (get_potential_matches f rs user_id s))) c = Some q"
    by (simp add: candidates_state)
  from gs have "(gender p = Some ''male'' \<longrightarrow> gender q = Some ''female'') \<and>
                (gender p = Some ''female'' \<longrightarrow> gender q = Some ''male'') \<and>
                (gender p = Some ''male'' \<or> gender p = Some ''female'' \<longrightarrow>
                   gender q \<noteq> gender p)"
    by (auto simp: gender_skip_def)
  with h(1) ne m show ?thesis by blast
qed

lemma one_sided_candidates:
  "fst (get_potential_matches None [] 1 one_sided_store) = [2]"
  by (simp add: one_sided_store_def empty_store_def example_profile_def empty_profile_def
        get_potential_matches_def get_user_profile_def excluded_users_def truthy_flag_def
        gender_skip_def uni_ok_def targets_or_empty_def shuffle_def Let_def)

theorem candidate_filter_exclusions_witness:
  "2 \<noteq> (1::int) \<and>
   map_option gender (fst (get_user_profile None 1 one_sided_store)) = Some (Some ''male'') \<and>
   map_option gender
     (map_of (user_profiles (snd (get_potential_matches None [] 1 one_sided_store))) 2)
     = Some (Some ''female'')"
proof -
  have d: "distinct (map fst (user_profiles one_sided_store))"
    by (simp add: one_sided_store_def empty_store_def)
  have c: "2 \<in> set (fst (get_potential_matches None [] 1 one_sided_store))"
    by (simp add: one_sided_candidates)
  have g: "fst (get_user_profile None 1 one_sided_store)
             = Some (example_profile ''male'' ''Addis Ababa University'' [''All''])"
    by (simp add: get_user_profile_def one_sided_store_def empty_store_def)
  from candidate_filter_exclusions [OF d c] obtain p q where
    h: "fst (get_user_profile None 1 one_sided_store) = Some p"
       "map_of (user_profiles (snd (get_potential_matches None [] 1 one_sided_store))) 2 = Some q"
       "gender p = Some ''male'' \<longrightarrow> gender q = Some ''female''"
    by blast
  from h(1) g have "p = example_profile ''male'' ''Addis Ababa University'' [''All'']"
    by simp
  then have "gender p = Some ''male''" by (simp add: example_profile_def)
  with h show ?thesis by simp
qed


text \<open>
  Claim C5, amended. On the same store the candidates of \<^verbatim>\<open>data_store_new.py\<close> are a
  subset of the candidates of \<^verbatim>\<open>data_store.py\<close> (for any draws of the two shuffles and
  any failure of the read-through). The sets are equal when the requester's profile is in
  memory and the target list of every stored profile contains \<^verbatim>\<open>"All"\<close> or the
  requester's university, which is the extra test of the new copy.
\<close>

theorem matching_filter_copies:
  "set (get_potential_matches_new rs2 user_id s)
     \<subseteq> set (fst (get_potential_matches f rs1 user_id s)) \<and>
   (map_of (user_profiles s) user_id = Some p \<and>
    (\<forall>(c, q) \<in> set (user_profiles s). uni_ok (targets_or_empty q) (university p)) \<longrightarrow>
      set (get_potential_matches_new rs2 user_id s)
        = set (fst (get_potential_matches f rs1 user_id s)))"
proof
  show "set (get_potential_matches_new rs2 user_id s)
     \<subseteq> set (fst (get_potential_matches f rs1 user_id s))"
  proof
    fix c assume "c \<in> set (get_potential_matches_new rs2 user_id s)"
    then obtain p q where h: "map_of (user_profiles s) user_id = Some p"
       "p \<noteq> empty_profile" "truthy_flag (profile_complete p)"
       "(c, q) \<in> set (user_profiles s)"
       "keeps user_id p (excluded_users user_id s) (c, q)"
      unfolding candidates_new_iff by blast
    have "get_user_profile f user_id s = (Some p, s)"
      using h(1) by (rule get_user_profile_cached)
    with h show "c \<in> set (fst (get_potential_matches f rs1 user_id s))"
      unfolding candidates_iff by auto
  qed
next
  show "map_of (user_profiles s) user_id = Some p \<and>
    (\<forall>(c, q) \<in> set (user_profiles s). uni_ok (targets_or_empty q) (university p)) \<longrightarrow>
      set (get_potential_matches_new rs2 user_id s)
        = set (fst (get_potential_matches f rs1 user_id s))"
  proof
    assume a: "map_of (user_profiles s) user_id = Some p \<and>
      (\<forall>(c, q) \<in> set (user_profiles s). uni_ok (targets_or_empty q) (university p))"
    then have g: "get_user_profile f user_id s = (Some p, s)"
      by (simp add: get_user_profile_cached)
    from a have all: "\<And>c q. (c, q) \<in> set (user_profiles s) \<Longrightarrow>
        uni_ok (targets_or_empty q) (university p)" by blast
    show "set (get_potential_matches_new rs2 user_id s)
        = set (fst (get_potential_matches f rs1 user_id s))"
    proof (rule set_eqI)
      fix c
      show "c \<in> set (get_potential_matches_new rs2 user_id s) \<longleftrightarrow>
            c \<in> set (fst (get_potential_matches f rs1 user_id s))"
        unfolding candidates_new_iff candidates_iff using a g all by auto
    qed
  qed
qed

theorem matching_filter_copies_witness:
  "set (get_potential_matches_new [] 1 all_targets_store)
     \<subseteq> set (fst (get_potential_matches None [] 1 all_targets_store)) \<and>
   set (get_potential_matches_new [] 1 all_targets_store)
        = set (fst (get_potential_matches None [] 1 all_targets_store))"
  using matching_filter_copies [of "[]" 1 all_targets_store None "[]"
          "example_profile ''male'' ''Addis Ababa University'' [''All'']"]
  by (simp add: all_targets_store_def empty_store_def example_profile_def uni_ok_def
        targets_or_empty_def)

text \<open>
  The claim as stated fails when a candidate's target list does not admit the requester's
  university: \<^verbatim>\<open>data_store.py\<close> returns user 2 for user 1, \<^verbatim>\<open>data_store_new.py\<close> does not.
\<close>

theorem copies_differ_counterexample:
  "fst (get_potential_matches None [] 1 one_sided_store) = [2] \<and>
   get_potential_matches_new [] 1 one_sided_store = []"
  by (simp add: one_sided_store_def empty_store_def example_profile_def empty_profile_def
        get_potential_matches_def get_user_profile_def excluded_users_def truthy_flag_def
        get_potential_matches_new_def get_user_profile_new_def blocked_by_def get_set_def
        gender_skip_def uni_ok_def targets_or_empty_def shuffle_def Let_def)

section \<open>Properties of block and unmatch\<close>

lemma remove_match_gone: "b \<notin> get_set (remove_match a b m) a"
  by (simp add: remove_match_def get_set_def split: option.splits)

lemma remove_match_sub: "get_set (remove_match a b m) k \<subseteq> get_set m k"
  by (auto simp: remove_match_def get_set_def split: option.splits)

lemma remove_both:
  "b \<notin> get_set (remove_match b a (remove_match a b m)) a \<and>
   a \<notin> get_set (remove_match b a (remove_match a b m)) b"
  using remove_match_gone [of b a m] remove_match_gone [of a b "remove_match a b m"]
        remove_match_sub [of b a "remove_match a b m" a]
  by blast

lemma block_try_frame:
  "matches (snd (block_user_from_db_try f a b s)) = matches s \<and>
   likes (snd (block_user_from_db_try f a b s)) = likes s \<and>
   blocks (snd (block_user_from_db_try f a b s)) = blocks s \<and>
   user_profiles (snd (block_user_from_db_try f a b s)) = user_profiles s \<and>
   db_users (db (snd (block_user_from_db_try f a b s))) = db_users (db s)"
  by (simp add: block_user_from_db_try_def Let_def split: option.splits)

lemma unmatch_try_frame:
  "matches (snd (unmatch_user_from_db_try f a b s)) = matches s \<and>
   likes (snd (unmatch_user_from_db_try f a b s)) = likes s \<and>
   blocks (snd (unmatch_user_from_db_try f a b s)) = blocks s \<and>
   user_profiles (snd (unmatch_user_from_db_try f a b s)) = user_profiles s \<and>
   db_users (db (snd (unmatch_user_from_db_try f a b s))) = db_users (db s) \<and>
   db_blocks (db (snd (unmatch_user_from_db_try f a b s))) = db_blocks (db s)"
  by (simp add: unmatch_user_from_db_try_def Let_def split: option.splits)

lemma clear_edges:
  "map (\<lambda>l. (Like_sender_id l, Like_receiver_id l)) (clear_match_flags x y ls) =
   map (\<lambda>l. (Like_sender_id l, Like_receiver_id l)) ls"
  by (induction ls) (simp_all add: clear_match_flags_def)

lemma unmatch_try_edges:
  "map (\<lambda>l. (Like_sender_id l, Like_receiver_id l))
     (db_likes (db (snd (unmatch_user_from_db_try f a b s)))) =
   map (\<lambda>l. (Like_sender_id l, Like_receiver_id l)) (db_likes (db s))"
  by (simp add: unmatch_user_from_db_try_def Let_def clear_edges split: option.splits)

lemma cleared_no_match:
  "\<not> list_ex (\<lambda>l. Like_is_match l \<and>
                 ((Like_sender_id l = x \<and> Like_receiver_id l = y) \<or>
                  (Like_sender_id l = y \<and> Like_receiver_id l = x)))
       (clear_match_flags x y ls)"
  by (induction ls) (auto simp: clear_match_flags_def)

lemma durable_match_sym: "durable_match d a b = durable_match d b a"
  by (auto simp: durable_match_def list_ex_iff split: option.splits)

lemma block_try_clears:
  assumes "no_fault f 5"
  shows "\<not> durable_match (db (snd (block_user_from_db_try f a b s))) a b"
proof -
  have nf: "\<not> raises f k" if "k \<le> 5" for k
    using assms that by (auto simp: no_fault_def raises_def split: option.splits)
  have r: "\<not> raises f 0" "\<not> raises f 1" "\<not> raises f 2" "\<not> raises f 3" "\<not> raises f 4"
          "\<not> raises f 5"
    by (simp_all add: nf)
  show ?thesis
  proof (cases "first_user (db s) a")
    case None
    then show ?thesis using r
      by (simp add: block_user_from_db_try_def durable_match_def Let_def)
  next
    case (Some ra)
    note sa = this
    show ?thesis
    proof (cases "first_user (db s) b")
      case None
      with sa show ?thesis using r
        by (simp add: block_user_from_db_try_def durable_match_def Let_def)
    next
      case (Some rb)
      with sa show ?thesis using r cleared_no_match [of "User_id ra" "User_id rb" "db_likes (db s)"]
        by (simp add: block_user_from_db_try_def durable_match_def first_user_def Let_def)
    qed
  qed
qed

text \<open>
  Claim C4, amended. After \<^verbatim>\<open>block_user_from_db\<close> neither user is in the other's
  in-memory match set, for every store and whatever the durable store does. In the
  durable relation no like row between the two keeps its match flag, provided none of the
  calls of the durable write (0 to 5) raises.
\<close>

theorem block_severs_match:
  "b \<notin> get_set (matches (block_user_from_db f a b s)) a \<and>
   a \<notin> get_set (matches (block_user_from_db f a b s)) b \<and>
   (no_fault f 5 \<longrightarrow>
      \<not> durable_match (db (block_user_from_db f a b s)) a b \<and>
      \<not> durable_match (db (block_user_from_db f a b s)) b a)"
  using remove_both [of b a "matches s"] block_try_clears [of f a b]
  by (simp add: block_user_from_db_def logged_def Let_def block_try_frame durable_match_sym)

theorem block_severs_match_witness:
  "20 \<in> get_set (matches matched_store) 10 \<and> durable_match (db matched_store) 10 20 \<and>
   20 \<notin> get_set (matches (block_user_from_db None 10 20 matched_store)) 10 \<and>
   10 \<notin> get_set (matches (block_user_from_db None 10 20 matched_store)) 20 \<and>
   \<not> durable_match (db (block_user_from_db None 10 20 matched_store)) 10 20 \<and>
   \<not> durable_match (db (block_user_from_db None 10 20 matched_store)) 20 10"
  using block_severs_match [of 20 None 10 matched_store]
  by (simp add: no_fault_def matched_store_def empty_store_def empty_database_def
        example_user_def get_set_def durable_match_def first_user_def)

text \<open>
  The claim as stated fails when the durable write raises (here at its commit): the
  exception is logged, memory has dropped the match, and the rows of the likes table keep
  their match flags.
\<close>

theorem block_durable_counterexample:
  "20 \<in> get_set (matches matched_store) 10 \<and> 10 \<in> get_set (matches matched_store) 20 \<and>
   durable_match (db matched_store) 10 20 \<and>
   durable_match (db (block_user_from_db (Some 5) 10 20 matched_store)) 10 20 \<and>
   durable_match (db (block_user_from_db (Some 5) 10 20 matched_store)) 20 10"
  by (simp add: matched_store_def empty_store_def empty_database_def example_user_def
        get_set_def durable_match_def first_user_def block_user_from_db_def
        block_user_from_db_try_def first_block_def logged_def raises_def remove_match_def
        Let_def)

lemma liked_not_candidate:
  assumes "c \<in> get_set (likes s) u"
  shows "c \<notin> set (fst (get_potential_matches f rs u s))"
proof
  assume "c \<in> set (fst (get_potential_matches f rs u s))"
  then obtain p q where
    "keeps u p (excluded_users u (snd (get_user_profile f u s))) (c, q)"
    unfolding candidates_iff by blast
  then have "c \<notin> excluded_users u (snd (get_user_profile f u s))"
    by (simp add: keeps_def)
  then have "c \<notin> get_set (likes (snd (get_user_profile f u s))) u"
    by (simp add: excluded_iff)
  with assms show False by (simp add: get_user_profile_frame)
qed

text \<open>
  Claim C7, amended. For matched users \<open>a\<close> and \<open>b\<close>, \<^verbatim>\<open>unmatch_user_from_db\<close> removes each
  from the other's match set, leaves the block dictionary and the blocks table as they
  were, and leaves the like sets and the like edges of the durable table as they were; so
  a like edge from \<open>a\<close> to \<open>b\<close> that exists before still keeps \<open>b\<close> out of the
  candidates of \<open>a\<close> afterwards, and the same the other way round.
\<close>

theorem unmatch_clears_match_only:
  assumes "b \<in> get_set (matches s) a" and "a \<in> get_set (matches s) b"
  shows "b \<notin> get_set (matches (unmatch_user_from_db f a b s)) a \<and>
         a \<notin> get_set (matches (unmatch_user_from_db f a b s)) b \<and>
         blocks (unmatch_user_from_db f a b s) = blocks s \<and>
         db_blocks (db (unmatch_user_from_db f a b s)) = db_blocks (db s) \<and>
         likes (unmatch_user_from_db f a b s) = likes s \<and>
         map (\<lambda>l. (Like_sender_id l, Like_receiver_id l))
             (db_likes (db (unmatch_user_from_db f a b s)))
           = map (\<lambda>l. (Like_sender_id l, Like_receiver_id l)) (db_likes (db s)) \<and>
         (b \<in> get_set (likes s) a \<longrightarrow>
            b \<notin> set (fst (get_potential_matches f1 rs1 a (unmatch_user_from_db f a b s)))) \<and>
         (a \<in> get_set (likes s) b \<longrightarrow>
            a \<notin> set (fst (get_potential_matches f2 rs2 b (unmatch_user_from_db f a b s))))"
proof -
  let ?s' = "unmatch_user_from_db f a b s"
  have fr: "matches ?s' = remove_match b a (remove_match a b (matches s))"
           "likes ?s' = likes s" "blocks ?s' = blocks s" "db_blocks (db ?s') = db_blocks (db s)"
    by (simp_all add: unmatch_user_from_db_def logged_def Let_def unmatch_try_frame)
  have ed: "map (\<lambda>l. (Like_sender_id l, Like_receiver_id l)) (db_likes (db ?s'))
           = map (\<lambda>l. (Like_sender_id l, Like_receiver_id l)) (db_likes (db s))"
    by (simp add: unmatch_user_from_db_def logged_def Let_def unmatch_try_edges)
  have c1: "b \<in> get_set (likes s) a \<longrightarrow>
            b \<notin> set (fst (get_potential_matches f1 rs1 a ?s'))"
    using liked_not_candidate [of b ?s' a f1 rs1] fr(2) by simp
  have c2: "a \<in> get_set (likes s) b \<longrightarrow>
            a \<notin> set (fst (get_potential_matches f2 rs2 b ?s'))"
    using liked_not_candidate [of a ?s' b f2 rs2] fr(2) by simp
  show ?thesis using fr ed c1 c2 remove_both [of b a "matches s"] by simp
qed

lemmas store_eval = get_potential_matches_def get_user_profile_def excluded_users_def truthy_flag_def
        gender_skip_def uni_ok_def targets_or_empty_def shuffle_def Let_def
        example_profile_def empty_profile_def empty_store_def empty_database_def
        example_user_def get_set_def first_user_def first_like_def fresh_id_def flag_match_def
        add_match_def remove_match_def clear_match_flags_def logged_def raises_def
        process_match_decision_def process_match_decision_try_def
        unmatch_user_from_db_def unmatch_user_from_db_try_def

theorem unmatch_clears_match_only_witness:
  "20 \<in> get_set (matches matched_profiles_store) 10 \<and>
   10 \<in> get_set (matches matched_profiles_store) 20 \<and>
   20 \<in> get_set (likes matched_profiles_store) 10 \<and>
   10 \<in> get_set (likes matched_profiles_store) 20 \<and>
   20 \<notin> get_set (matches (unmatch_user_from_db None 10 20 matched_profiles_store)) 10 \<and>
   10 \<notin> get_set (matches (unmatch_user_from_db None 10 20 matched_profiles_store)) 20 \<and>
   blocks (unmatch_user_from_db None 10 20 matched_profiles_store)
     = blocks matched_profiles_store \<and>
   likes (unmatch_user_from_db None 10 20 matched_profiles_store)
     = likes matched_profiles_store \<and>
   20 \<notin> set (fst (get_potential_matches None [] 10
                     (unmatch_user_from_db None 10 20 matched_profiles_store))) \<and>
   10 \<notin> set (fst (get_potential_matches None [] 20
                     (unmatch_user_from_db None 10 20 matched_profiles_store))) \<and>
   fst (get_potential_matches None [] 10
          (unmatch_user_from_db None 10 20 matched_profiles_store)) = [30]"
proof -
  have m: "20 \<in> get_set (matches matched_profiles_store) 10"
          "10 \<in> get_set (matches matched_profiles_store) 20"
    and l: "20 \<in> get_set (likes matched_profiles_store) 10"
           "10 \<in> get_set (likes matched_profiles_store) 20"
    by (simp_all add: matched_profiles_store_def matched_store_def empty_store_def get_set_def)
  have c: "fst (get_potential_matches None [] 10
          (unmatch_user_from_db None 10 20 matched_profiles_store)) = [30]"
    by (simp add: matched_profiles_store_def matched_store_def store_eval)
  from unmatch_clears_match_only [OF m, of None None "[]" None "[]"] m l c
  show ?thesis by simp
qed

text \<open>
  The claim as stated fails for matched users whose like edge is not in memory. User 20
  likes user 10 while the like of 10 for 20 is a row of the table only: the two are
  matched, user 20 is no candidate of user 10 while the match lasts, and after the
  unmatch user 20 is a candidate of user 10 again.
\<close>

theorem unmatched_reappears_counterexample:
  "20 \<in> get_set (matches durable_match_store) 10 \<and>
   10 \<in> get_set (matches durable_match_store) 20 \<and>
   fst (get_potential_matches None [] 10 durable_match_store) = [] \<and>
   fst (get_potential_matches None [] 10
          (unmatch_user_from_db None 10 20 durable_match_store)) = [20]"
  by (simp add: durable_match_store_def durable_like_store_def diverged_store_def store_eval)

section \<open>Properties of the writes\<close>

lemma save_try_frame:
  "user_profiles (snd (save_user_profile_try f u p s)) = user_profiles s"
  by (simp add: save_user_profile_try_def Let_def split: option.splits)

lemma save_memory:
  "user_profiles (save_user_profile f u p s) = AList.update u p (user_profiles s)"
  by (simp add: save_user_profile_def logged_def Let_def save_try_frame)

lemma crush_try_frame:
  "secret_crushes (snd (add_secret_crush_try f u c s)) = secret_crushes s"
  by (simp add: add_secret_crush_try_def Let_def split: option.splits)


lemma crush_memory:
  "c \<in> get_set (secret_crushes (snd (add_secret_crush f u (Some c) n a ph s))) u"
  by (simp add: add_secret_crush_def logged_def Let_def crush_try_frame get_set_def)

lemma block_memory:
  "b \<in> (case map_of (blocks (block_user_from_db f u b s)) u of None \<Rightarrow> {} | Some bs \<Rightarrow> bs)"
  by (simp add: block_user_from_db_def logged_def Let_def block_try_frame update_conv')

lemma report_try_frame:
  "reports (snd (report_user_to_db_try f u r reason s)) = reports s"
  by (simp add: report_user_to_db_try_def Let_def split: option.splits)

lemma report_memory:
  "reports (report_user_to_db f u r reason s) u =
     Some ((case reports s u of None \<Rightarrow> [] | Some rs \<Rightarrow> rs) @ [r])"
  by (simp add: report_user_to_db_def logged_def Let_def report_try_frame)

lemma unmatch_memory:
  "b \<notin> get_set (matches (unmatch_user_from_db f a b s)) a"
  using remove_both [of b a "matches s"]
  by (simp add: unmatch_user_from_db_def logged_def Let_def unmatch_try_frame)

lemma chat_try_frame:
  "chats (snd (add_chat_message_try f a b txt s)) = chats s"
  by (simp add: add_chat_message_try_def Let_def split: option.splits)

lemma chat_memory:
  "chats (add_chat_message f now a b txt s) (chat_key a b) =
     Some ((case chats s (chat_key a b) of None \<Rightarrow> [] | Some ms \<Rightarrow> ms) @
           [\<lparr>sender_id = a, sent_at = now, text_of = txt\<rparr>])"
  by (simp add: add_chat_message_def logged_def Let_def chat_try_frame)

lemma first_call_raises:
  "db (save_user_profile (Some 0) u p s) = db s"
  "db (snd (process_match_decision (Some 0) u t True s)) = db s"
  "db (snd (add_secret_crush (Some 0) u (Some c) n a ph s)) = db s"
  "db (block_user_from_db (Some 0) u t s) = db s"
  "db (report_user_to_db (Some 0) u t reason s) = db s"
  "db (unmatch_user_from_db (Some 0) u t s) = db s"
  "db (add_chat_message (Some 0) now u t txt s) = db s"
  by (simp_all add: save_user_profile_def save_user_profile_try_def
        process_match_decision_def process_match_decision_try_def
        add_secret_crush_def add_secret_crush_try_def
        block_user_from_db_def block_user_from_db_try_def
        report_user_to_db_def report_user_to_db_try_def
        unmatch_user_from_db_def unmatch_user_from_db_try_def
        add_chat_message_def add_chat_message_try_def
        logged_def raises_def Let_def)

lemma external_try_memory:
  "(snd (add_external_crush_try f u nm a ph s))\<lparr>db := db s\<rparr> = s"
  by (simp add: add_external_crush_try_def Let_def split: option.splits)

lemma external_memory:
  "(snd (add_secret_crush f u None n a ph s))\<lparr>db := db s\<rparr> = s"
  by (simp add: add_secret_crush_def logged_def external_try_memory)

text \<open>
  Claim C9, amended. For the writes that have an in-memory structure (a saved profile, a
  like, a crush on a registered user, a block, a report, an unmatch, a chat message) and
  for every fault, that is wherever the durable write raises or not: the operation
  returns, and the in-memory update is in the store it returns. (The operations are total:
  the exception of the durable block is a value that \<^verbatim>\<open>except\<close> logs and drops.)
  Adding an external crush changes no in-memory structure: apart from the tables the store
  it returns is the store it was given.
\<close>

theorem durable_failure_is_silent:
  "user_profiles (save_user_profile f user_id p s) = AList.update user_id p (user_profiles s) \<and>
   other_id \<in> get_set (likes (snd (process_match_decision f user_id other_id True s))) user_id \<and>
   other_id \<in> get_set (secret_crushes
                 (snd (add_secret_crush f user_id (Some other_id) n a ph s))) user_id \<and>
   other_id \<in> (case map_of (blocks (block_user_from_db f user_id other_id s)) user_id of
                 None \<Rightarrow> {} | Some bs \<Rightarrow> bs) \<and>
   reports (report_user_to_db f user_id other_id reason s) user_id =
     Some ((case reports s user_id of None \<Rightarrow> [] | Some rs \<Rightarrow> rs) @ [other_id]) \<and>
   other_id \<notin> get_set (matches (unmatch_user_from_db f user_id other_id s)) user_id \<and>
   chats (add_chat_message f now user_id other_id txt s) (chat_key user_id other_id) =
     Some ((case chats s (chat_key user_id other_id) of None \<Rightarrow> [] | Some ms \<Rightarrow> ms) @
           [\<lparr>sender_id = user_id, sent_at = now, text_of = txt\<rparr>]) \<and>
   (snd (add_secret_crush f user_id None n a ph s))\<lparr>db := db s\<rparr> = s"
  using save_memory like_recorded crush_memory block_memory report_memory unmatch_memory
        chat_memory external_memory
  by simp

theorem durable_failure_is_silent_witness:
  "fst (save_user_profile_try (Some 4) 10
          (example_profile ''male'' ''Jimma University'' [''All''])
          (registered_store\<lparr>user_profiles :=
             AList.update 10 (example_profile ''male'' ''Jimma University'' [''All''])
               (user_profiles registered_store)\<rparr>)) = Inl DatabaseError \<and>
   map_of (user_profiles (save_user_profile (Some 4) 10
             (example_profile ''male'' ''Jimma University'' [''All'']) registered_store)) 10
     = Some (example_profile ''male'' ''Jimma University'' [''All'']) \<and>
   fst (process_match_decision_try (Some 6) 10 20
          (registered_store\<lparr>likes := (likes registered_store)(10 \<mapsto> {20})\<rparr>))
     = Inl DatabaseError \<and>
   20 \<in> get_set (likes (snd (process_match_decision (Some 6) 10 20 True registered_store))) 10"
proof -
  have r1: "fst (save_user_profile_try (Some 4) 10
          (example_profile ''male'' ''Jimma University'' [''All''])
          (registered_store\<lparr>user_profiles :=
             AList.update 10 (example_profile ''male'' ''Jimma University'' [''All''])
               (user_profiles registered_store)\<rparr>)) = Inl DatabaseError"
    by (simp add: save_user_profile_try_def raises_def first_user_def registered_store_def
          empty_store_def empty_database_def example_user_def example_profile_def
          empty_profile_def Let_def)
  have r2: "fst (process_match_decision_try (Some 6) 10 20
          (registered_store\<lparr>likes := (likes registered_store)(10 \<mapsto> {20})\<rparr>))
     = Inl DatabaseError"
    by (simp add: process_match_decision_try_def raises_def first_user_def first_like_def
          registered_store_def empty_store_def empty_database_def example_user_def Let_def)
  from durable_failure_is_silent [where f = "Some 4" and user_id = 10 and s = registered_store
          and p = "example_profile ''male'' ''Jimma University'' [''All'']"]
       durable_failure_is_silent [where f = "Some 6" and user_id = 10 and other_id = 20
          and s = registered_store]
       r1 r2
  show ?thesis by (simp add: update_conv')
qed

text \<open>
  The claim as stated fails for one write of the store: a crush on an external target has
  no in-memory structure. The operation writes the durable table only; when its commit
  raises, \<^verbatim>\<open>"added_external"\<close> is returned and the store is exactly as before.
\<close>

theorem external_crush_counterexample:
  "add_secret_crush (Some 2) 10 None (Some ''Sara'') None None registered_store
     = (''added_external'', registered_store) \<and>
   secret_crushes (snd (add_secret_crush None 10 None (Some ''Sara'') None None
                          registered_store)) = secret_crushes registered_store \<and>
   db_crushes (db (snd (add_secret_crush None 10 None (Some ''Sara'') None None
                          registered_store))) \<noteq> db_crushes (db registered_store)"
  by (simp add: add_secret_crush_def add_external_crush_try_def logged_def raises_def
        registered_store_def empty_store_def empty_database_def example_user_def
        first_user_def or_empty_def Let_def)









section \<open>Properties of the registration flow\<close>

lemma parse_target_0:
  "py_index (split_on CHR ''_'' ''target_0'') 1 = Some ''0'' \<and> py_int ''0'' = Some 0 \<and>
   py_index UNIVERSITY_LIST 0 = Some ''Addis Ababa University''"
  by (simp add: py_index_def py_int_def is_space_def is_digit_def UNIVERSITY_LIST_def Let_def)

lemma saved_profile:
  "map_of (user_profiles (save_user_profile f u p s)) u = Some p"
  by (simp add: save_memory update_conv')

lemma parse_target_2:
  "py_index (split_on CHR ''_'' ''target_2'') 1 = Some ''2'' \<and> py_int ''2'' = Some 2 \<and>
   py_index UNIVERSITY_LIST 2 = Some ''Bahir Dar University''"
  by (simp add: py_index_def py_int_def is_space_def is_digit_def UNIVERSITY_LIST_def Let_def)

lemma select_university_cases:
  "select_university u cur =
     (if ''All'' \<in> set (case cur of None \<Rightarrow> [] | Some l \<Rightarrow> l) then [u]
      else if u \<in> set (case cur of None \<Rightarrow> [] | Some l \<Rightarrow> l)
           then (case cur of None \<Rightarrow> [] | Some l \<Rightarrow> l)
           else (case cur of None \<Rightarrow> [] | Some l \<Rightarrow> l) @ [u])"
  by (cases cur) (auto simp: select_university_def Let_def)

text \<open>
  Claim C6, amended. In the state \<^verbatim>\<open>TARGET_UNIVERSITIES\<close>, for a user whose profile is
  found and callback data that name a university of the list: when the working list holds
  the \<^verbatim>\<open>"All"\<close> sentinel the list becomes the selected university alone; when the
  university is already in the list the list stays as it is; otherwise the university is
  appended after the earlier selections. No other field of the profile changes, and the
  state stays \<^verbatim>\<open>TARGET_UNIVERSITIES\<close> (a profile without a university makes the
  handler raise \<^verbatim>\<open>KeyError\<close> after the list is stored). The done signal advances to
  \<^verbatim>\<open>HOBBIES\<close> exactly when the working list is non-empty, and otherwise leaves state and
  store as they are. Choosing all universities stores the sentinel and advances at once.
\<close>

theorem target_universities_subloop:
  assumes g: "get_user_profile fg user_id s = (Some p, s0)"
  shows
    "(data \<noteq> ''target_all'' \<and> data \<noteq> ''target_done'' \<and>
      py_index (split_on CHR ''_'' data) 1 = Some piece \<and> py_int piece = Some i \<and>
      py_index UNIVERSITY_LIST i = Some u \<longrightarrow>
        fst (handle_target_universities fg fs user_id data s)
          = (if university p = None then Inl KeyError else Inr TARGET_UNIVERSITIES) \<and>
        map_of (user_profiles (snd (handle_target_universities fg fs user_id data s))) user_id
          = Some (p\<lparr>target_universities := Some
                     (if ''All'' \<in> set (targets_or_empty p) then [u]
                      else if u \<in> set (targets_or_empty p) then targets_or_empty p
                      else targets_or_empty p @ [u])\<rparr>)) \<and>
     handle_target_universities fg fs user_id ''target_done'' s
       = (Inr (if targets_or_empty p = [] then TARGET_UNIVERSITIES else HOBBIES), s0) \<and>
     fst (handle_target_universities fg fs user_id ''target_all'' s) = Inr HOBBIES \<and>
     map_of (user_profiles (snd (handle_target_universities fg fs user_id ''target_all'' s)))
       user_id = Some (p\<lparr>target_universities := Some [''All'']\<rparr>)"
proof (intro conjI impI)
  assume h: "data \<noteq> ''target_all'' \<and> data \<noteq> ''target_done'' \<and>
      py_index (split_on CHR ''_'' data) 1 = Some piece \<and> py_int piece = Some i \<and>
      py_index UNIVERSITY_LIST i = Some u"
  let ?p1 = "p\<lparr>target_universities := Some (select_university u (target_universities p))\<rparr>"
  have r: "handle_target_universities fg fs user_id data s =
        ((case university ?p1 of None \<Rightarrow> Inl KeyError | Some x \<Rightarrow> Inr TARGET_UNIVERSITIES),
         save_user_profile fs user_id ?p1 s0)"
    using g h by (simp add: handle_target_universities_def Let_def split: option.splits)
  show "fst (handle_target_universities fg fs user_id data s)
          = (if university p = None then Inl KeyError else Inr TARGET_UNIVERSITIES)"
    unfolding r by (simp split: option.splits)
  have l: "select_university u (target_universities p) =
       (if ''All'' \<in> set (targets_or_empty p) then [u]
        else if u \<in> set (targets_or_empty p) then targets_or_empty p
        else targets_or_empty p @ [u])"
    unfolding select_university_cases targets_or_empty_def ..
  show "map_of (user_profiles (snd (handle_target_universities fg fs user_id data s))) user_id
          = Some (p\<lparr>target_universities := Some
                     (if ''All'' \<in> set (targets_or_empty p) then [u]
                      else if u \<in> set (targets_or_empty p) then targets_or_empty p
                      else targets_or_empty p @ [u])\<rparr>)"
    unfolding r l [symmetric] by (simp add: saved_profile)
next
  show "handle_target_universities fg fs user_id ''target_done'' s
       = (Inr (if targets_or_empty p = [] then TARGET_UNIVERSITIES else HOBBIES), s0)"
    using g by (simp add: handle_target_universities_def)
next
  show "fst (handle_target_universities fg fs user_id ''target_all'' s) = Inr HOBBIES"
    using g by (simp add: handle_target_universities_def)
next
  show "map_of (user_profiles (snd (handle_target_universities fg fs user_id ''target_all'' s)))
          user_id = Some (p\<lparr>target_universities := Some [''All'']\<rparr>)"
    using g by (simp add: handle_target_universities_def saved_profile)
qed

lemma picking_profile:
  "get_user_profile None 1 picking_store =
     (Some (empty_profile\<lparr>name := Some ''user'', age := Some 20, gender := Some ''male'',
              university := Some ''Jimma University'',
              target_universities := Some [''Addis Ababa University'']\<rparr>), picking_store)"
  by (simp add: get_user_profile_def picking_store_def empty_store_def)

theorem target_universities_subloop_witness:
  "fst (handle_target_universities None None 1 ''target_2'' picking_store)
     = Inr TARGET_UNIVERSITIES \<and>
   map_option target_universities
     (map_of (user_profiles (snd (handle_target_universities None None 1 ''target_2''
                                    picking_store))) 1)
     = Some (Some [''Addis Ababa University'', ''Bahir Dar University'']) \<and>
   handle_target_universities None None 1 ''target_done'' picking_store
     = (Inr HOBBIES, picking_store) \<and>
   fst (handle_target_universities None None 1 ''target_all'' picking_store) = Inr HOBBIES \<and>
   map_option target_universities
     (map_of (user_profiles (snd (handle_target_universities None None 1 ''target_all''
                                    picking_store))) 1)
     = Some (Some [''All''])"
  using target_universities_subloop [OF picking_profile, where data = "''target_2''"
          and piece = "''2''" and i = 2 and u = "''Bahir Dar University''" and fs = None]
        parse_target_2
  by (simp add: empty_profile_def targets_or_empty_def)

text \<open>
  The claim as stated fails on its first part: selecting a university that is already in
  the working list does not remove it.
\<close>

theorem no_toggle_counterexample:
  "map_option target_universities (map_of (user_profiles picking_store) 1)
     = Some (Some [''Addis Ababa University'']) \<and>
   fst (handle_target_universities None None 1 ''target_0'' picking_store)
     = Inr TARGET_UNIVERSITIES \<and>
   map_option target_universities
     (map_of (user_profiles (snd (handle_target_universities None None 1 ''target_0''
                                    picking_store))) 1)
     = Some (Some [''Addis Ababa University''])"
proof -
  have before: "map_option target_universities (map_of (user_profiles picking_store) 1)
     = Some (Some [''Addis Ababa University''])"
    by (simp add: picking_store_def empty_store_def)
  have after: "fst (handle_target_universities None None 1 ''target_0'' picking_store)
       = Inr TARGET_UNIVERSITIES \<and>
     map_option target_universities
       (map_of (user_profiles (snd (handle_target_universities None None 1 ''target_0''
                                      picking_store))) 1)
       = Some (Some [''Addis Ababa University''])"
    using parse_target_0
    by (simp add: handle_target_universities_def picking_profile saved_profile
          select_university_def Let_def)
  from before after show ?thesis by simp
qed

end
